theory Spec2Isabelle
  imports Complex_Main "HOL-Library.Sublist"
begin

section \<open>Client connection state machine (signaling.js, class SignalingClient)\<close>

text \<open>
  The browser client keeps a Socket.IO socket, a connected flag, a manual-close flag and an
  outbox of emits issued while offline.  What reaches \<open>socket.emit\<close> is recorded, in
  order, in the field \<open>wire\<close>.  An application emit carries a payload of type \<open>'d\<close>.
\<close>

datatype 'd frame =
    Join string
  | Identify string string
  | RequestDeviceList
  | App string 'd

record 'd client =
  this_deviceName :: string
  this_xrId :: string
  has_socket :: bool
  isConnected :: bool
  manualClose :: bool
  outbox :: "(string \<times> 'd) list"
  wire :: "'d frame list"

definition OUTBOX_MAX :: nat where
  "OUTBOX_MAX = 200"

text \<open>
  \<open>_send(event, data)\<close>: emit at once when a socket exists and is connected, otherwise
  queue; a full queue drops its oldest element first (\<open>shift\<close>, then \<open>push\<close>).
\<close>

definition send :: "'d client \<Rightarrow> string \<Rightarrow> 'd \<Rightarrow> 'd client" where
  "send c event dat =
     (if has_socket c \<and> isConnected c
      then c\<lparr>wire := wire c @ [App event dat]\<rparr>
      else if length (outbox c) < OUTBOX_MAX
           then c\<lparr>outbox := outbox c @ [(event, dat)]\<rparr>
           else c\<lparr>outbox := tl (outbox c) @ [(event, dat)]\<rparr>)"

text \<open>A run of application sends, oldest first.\<close>

fun sends :: "'d client \<Rightarrow> (string \<times> 'd) list \<Rightarrow> 'd client" where
  "sends c [] = c"
| "sends c ((event, dat) # ms) = sends (send c event dat) ms"

text \<open>
  \<open>_onConnect()\<close>: mark connected, announce (join, identify, request\_device\_list), then
  flush the outbox in order and empty it.
\<close>

definition flush :: "(string \<times> 'd) list \<Rightarrow> 'd frame list" where
  "flush q = map (\<lambda>(event, dat). App event dat) q"

definition announce :: "'d client \<Rightarrow> 'd frame list" where
  "announce c = [Join (this_xrId c), Identify (this_deviceName c) (this_xrId c), RequestDeviceList]"

definition onConnect :: "'d client \<Rightarrow> 'd client" where
  "onConnect c =
     c\<lparr>isConnected := True,
       wire := wire c @ announce c @ flush (outbox c),
       outbox := []\<rparr>"

definition onDisconnect :: "'d client \<Rightarrow> 'd client" where
  "onDisconnect c = c\<lparr>isConnected := False\<rparr>"

definition onConnectError :: "'d client \<Rightarrow> 'd client" where
  "onConnectError c = c\<lparr>isConnected := False\<rparr>"

text \<open>
  The constructor refuses an empty device name or id; a new client has no socket, is not
  connected and has an empty outbox.  \<open>connect()\<close> creates the socket once and clears
  the manual-close flag.
\<close>

datatype client_error = DeviceNameRequired | XrIdRequired

definition new_client :: "string \<Rightarrow> string \<Rightarrow> client_error + 'd client" where
  "new_client name ident =
     (if name = [] then Inl DeviceNameRequired
      else if ident = [] then Inl XrIdRequired
      else Inr \<lparr>this_deviceName = name, this_xrId = ident, has_socket = False,
                isConnected = False, manualClose = False, outbox = [], wire = []\<rparr>)"

definition connect :: "'d client \<Rightarrow> 'd client" where
  "connect c = (if has_socket c then c else c\<lparr>manualClose := False, has_socket := True\<rparr>)"

text \<open>
  \<open>disconnect(reason)\<close> keeps the socket object but marks the client as closed by the
  user; \<open>close()\<close> also drops the socket.  Both do nothing without a socket.
\<close>

definition client_disconnect :: "'d client \<Rightarrow> 'd client" where
  "client_disconnect c =
     (if has_socket c then c\<lparr>manualClose := True, isConnected := False\<rparr> else c)"

definition client_close :: "'d client \<Rightarrow> 'd client" where
  "client_close c =
     (if has_socket c
      then c\<lparr>manualClose := True, has_socket := False, isConnected := False\<rparr> else c)"

text \<open>
  What happens to a client: calls of its methods by the application and events of its
  socket, which only an existing socket delivers.
\<close>

datatype 'd client_event =
    CallConnect
  | CallSend string 'd
  | CallDisconnect
  | CallClose
  | SocketConnect
  | SocketDisconnect
  | SocketConnectError

fun client_step :: "'d client \<Rightarrow> 'd client_event \<Rightarrow> 'd client" where
  "client_step c CallConnect = connect c"
| "client_step c (CallSend event dat) = send c event dat"
| "client_step c CallDisconnect = client_disconnect c"
| "client_step c CallClose = client_close c"
| "client_step c SocketConnect = (if has_socket c then onConnect c else c)"
| "client_step c SocketDisconnect = (if has_socket c then onDisconnect c else c)"
| "client_step c SocketConnectError = (if has_socket c then onConnectError c else c)"

definition client_run :: "'d client \<Rightarrow> 'd client_event list \<Rightarrow> 'd client" where
  "client_run c evs = foldl client_step c evs"

section \<open>Signaling hub (server.js): data model\<close>

text \<open>
  Identities, socket ids, room names and opaque JSON fragments are strings.  A value that
  JavaScript would see as \<open>undefined\<close> (a missing field) is \<open>None\<close>; the test
  \<open>!v\<close> on such a field holds for a missing value and for the empty string.
\<close>

type_synonym sid = string
type_synonym room = string
type_synonym json = string

definition truthy :: "string option \<Rightarrow> bool" where
  "truthy v = (case v of None \<Rightarrow> False | Some s \<Rightarrow> s \<noteq> [])"

text \<open>\<open>socket.data\<close> and a connection as a snapshot shows it (local or remote).\<close>

record sockdata =
  xrId :: "string option"
  deviceName :: "string option"
  connectedAt :: "int option"
  roomId :: "string option"

record sock =
  sock_id :: sid
  data :: sockdata

definition no_data :: sockdata where
  "no_data = \<lparr>xrId = None, deviceName = None, connectedAt = None, roomId = None\<rparr>"

text \<open>
  A JavaScript number: not-a-number, an infinity (\<open>JSON.parse\<close> gives one for a
  literal beyond the range of a double) or a finite value, every finite double being a
  rational.
\<close>

datatype number = NaN | MinusInfinity | Finite rat | PlusInfinity

text \<open>\<open>n < c\<close> for a number \<open>n\<close> and a finite \<open>c\<close>: false when \<open>n\<close> is not a number.\<close>

fun num_less :: "number \<Rightarrow> rat \<Rightarrow> bool" where
  "num_less NaN c = False"
| "num_less MinusInfinity c = True"
| "num_less (Finite r) c = (r < c)"
| "num_less PlusInfinity c = False"

text \<open>
  The \<open>ts\<close> field of a sample as a client may send it: any JSON value or nothing.  The
  server only compares it with a number and tests it for truth, so a non-empty string, an
  array and an object (all of them true) are represented by the number they convert to.
\<close>

datatype tsval =
    TsUndefined
  | TsNull
  | TsBool bool
  | TsNumber number
  | TsEmptyString
  | TsOther number

text \<open>\<open>ToNumber\<close>, as the comparison \<open>ts < cutoff\<close> applies it, and the truth of a value.\<close>

fun to_number :: "tsval \<Rightarrow> number" where
  "to_number TsUndefined = NaN"
| "to_number TsNull = Finite 0"
| "to_number (TsBool b) = Finite (if b then 1 else 0)"
| "to_number (TsNumber n) = n"
| "to_number TsEmptyString = Finite 0"
| "to_number (TsOther n) = n"

fun ts_truthy :: "tsval \<Rightarrow> bool" where
  "ts_truthy TsUndefined = False"
| "ts_truthy TsNull = False"
| "ts_truthy (TsBool b) = b"
| "ts_truthy (TsNumber n) = (n \<noteq> NaN \<and> n \<noteq> Finite 0)"
| "ts_truthy TsEmptyString = False"
| "ts_truthy (TsOther n) = True"

text \<open>A reading of the server's clock (\<open>Date.now()\<close>) as a timestamp.\<close>

definition stamp_now :: "int \<Rightarrow> tsval" where
  "stamp_now t = TsNumber (Finite (of_int t))"

text \<open>
  One entry of a metrics series.  The timestamp is the field the retention window looks
  at.  The measurement fields (numbers coerced by \<open>numOrNull\<close>, the connection type, the
  battery level) are carried as one opaque value, since they are floating-point readings
  that no operation here inspects.
\<close>

record sample =
  ts :: tsval
  readings :: json

text \<open>The latest quality snapshot of a device (\<open>qualityByDevice\<close>).\<close>

record quality_snap =
  qs_xrId :: string
  qs_ts :: tsval
  qs_readings :: json

text \<open>The latest telemetry snapshot of a device (\<open>telemetryByDevice\<close>).\<close>

record telemetry_rec =
  t_xrId :: string
  t_readings :: json
  t_ts :: int

text \<open>A chat message as kept in the history and relayed.\<close>

record chat =
  c_from :: "string option"
  c_to :: "string option"
  c_text :: "string option"
  c_urgent :: bool
  c_sender :: string
  c_timestamp :: string
  c_id :: "int option"

record holder_info =
  h_xrId :: string
  h_deviceName :: string
  h_since :: "int option"
  h_socketId :: sid

text \<open>
  One entry of a presence list.  The battery fields of an entry (filled from the latest
  battery report, a clamped floating-point percentage) are left out of this model.
\<close>

record device_entry =
  d_xrId :: string
  d_deviceName :: string
  d_telemetry :: "telemetry_rec option"

text \<open>
  The \<open>data\<close> of a relayed signal: the client's own opaque payload, or the transcript
  record the server builds (from, to, text, final, timestamp).
\<close>

datatype signal_data =
    Relayed json
  | TranscriptOut "string option" "string option" "string option" bool string

text \<open>
  Events the server emits, with their payloads.  A \<open>metrics_update\<close> carries a list
  under \<open>quality\<close> or under \<open>telemetry\<close>; an element is \<open>None\<close> when the
  server put \<open>undefined\<close> there (the last entry of an empty series).  The event
  \<open>webrtc_quality_update\<close> carries either the batch of a quality feed or the latest
  snapshot of every device.
\<close>

datatype event =
    MessageHistory "chat list"
  | DeviceList "device_entry list"
  | RoomUpdate "(string option \<times> string option) list"
  | ErrorMsg string
  | DuplicateId string holder_info
  | RoomJoined room "string list"
  | PairError string
  | PeerLeft string room
  | Signal "string option" "string option" signal_data
  | SignalError string
  | MetricsUpdateQuality string "sample option list"
  | MetricsUpdateTelemetry string "sample option"
  | WebrtcQualityUpdate string "sample option list"
  | WebrtcQualitySnapshots "quality_snap list"
  | TelemetryUpdate telemetry_rec
  | MetricsSnapshot string "sample list" "sample list"
  | Message chat

text \<open>
  Where an emit goes: one socket (\<open>socket.emit\<close>), a room (\<open>io.to(r).emit\<close>), a room
  without the sender (\<open>socket.to(r).emit\<close>), everyone (\<open>io.emit\<close>) or everyone but the
  sender (\<open>socket.broadcast.emit\<close>).
\<close>

datatype target =
    ToSocket sid
  | ToRoom room
  | ToRoomExcept room sid
  | ToAll
  | ToAllExcept sid

datatype task = RebroadcastDeviceList | BroadcastPairs

text \<open>
  What a handler does to the outside, in order: an emit, the removal of a socket from a
  room by the adapter, the end of a connection, a timer set with \<open>setTimeout\<close>, the
  request to the external note generator, and the status of an HTTP response.
\<close>

datatype effect =
    Emit target event
  | LeaveRoom sid room
  | Closed sid
  | Schedule nat task
  | GenerateSoapNote string
  | Respond nat

text \<open>
  The state of one server process.  \<open>sockets\<close> is \<open>io.sockets.sockets\<close>; \<open>rooms\<close> and
  \<open>sids\<close> are the two maps of the Socket.IO adapter (room to members, socket to rooms),
  kept in insertion order because the code iterates over them, and so is
  \<open>qualityByDevice\<close>; the identity registries and the other metric stores are keyed maps;
  \<open>out\<close> is the log of effects.
\<close>

record server =
  sockets :: "sock list"
  rooms :: "(room \<times> sid list) list"
  sids :: "(sid \<times> room list) list"
  clients :: "string \<rightharpoonup> sid"
  onlineDevices :: "string \<rightharpoonup> sid"
  desktopClients :: "string \<rightharpoonup> sid"
  telemetryByDevice :: "string \<rightharpoonup> telemetry_rec"
  telemetryHist :: "string \<rightharpoonup> sample list"
  qualityByDevice :: "(string \<times> quality_snap) list"
  qualityHist :: "string \<rightharpoonup> sample list"
  messageHistory :: "chat list"
  out :: "effect list"

definition init_server :: server where
  "init_server =
     \<lparr>sockets = [], rooms = [], sids = [], clients = Map.empty, onlineDevices = Map.empty,
      desktopClients = Map.empty, telemetryByDevice = Map.empty, telemetryHist = Map.empty,
      qualityByDevice = [], qualityHist = Map.empty, messageHistory = [], out = []\<rparr>"

definition emit :: "target \<Rightarrow> event \<Rightarrow> server \<Rightarrow> server" where
  "emit t e st = st\<lparr>out := out st @ [Emit t e]\<rparr>"

definition effect :: "effect \<Rightarrow> server \<Rightarrow> server" where
  "effect x st = st\<lparr>out := out st @ [x]\<rparr>"

section \<open>Sockets, rooms and snapshots\<close>

definition sock_of :: "server \<Rightarrow> sid \<Rightarrow> sock option" where
  "sock_of st i = find (\<lambda>s. sock_id s = i) (sockets st)"

definition data_of :: "server \<Rightarrow> sid \<Rightarrow> sockdata option" where
  "data_of st i = map_option data (sock_of st i)"

text \<open>\<open>socket.data.f = v\<close> on the socket with the given id.\<close>

definition set_data :: "sid \<Rightarrow> (sockdata \<Rightarrow> sockdata) \<Rightarrow> server \<Rightarrow> server" where
  "set_data i f st =
     st\<lparr>sockets := map (\<lambda>s. if sock_id s = i then s\<lparr>data := f (data s)\<rparr> else s) (sockets st)\<rparr>"

text \<open>\<open>adapter.rooms.get(r)\<close> and \<open>socket.rooms\<close>, empty when there is no entry.\<close>

definition members :: "server \<Rightarrow> room \<Rightarrow> sid list" where
  "members st r = (case map_of (rooms st) r of None \<Rightarrow> [] | Some ms \<Rightarrow> ms)"

definition socket_rooms :: "server \<Rightarrow> sid \<Rightarrow> room list" where
  "socket_rooms st i = (case map_of (sids st) i of None \<Rightarrow> [] | Some rs \<Rightarrow> rs)"

text \<open>Adding to a JavaScript \<open>Set\<close> kept under a key of a \<open>Map\<close>, both in insertion order.\<close>

fun set_add :: "'k \<Rightarrow> 'v \<Rightarrow> ('k \<times> 'v list) list \<Rightarrow> ('k \<times> 'v list) list" where
  "set_add k v [] = [(k, [v])]"
| "set_add k v ((k', vs) # m) =
     (if k' = k then (k', if v \<in> set vs then vs else vs @ [v]) # m
      else (k', vs) # set_add k v m)"

text \<open>
  \<open>socket.join(r)\<close>, that is the adapter's \<open>addAll\<close>: the room is noted under the
  socket and the socket under the room, each once.
\<close>

definition join_room :: "sid \<Rightarrow> room \<Rightarrow> server \<Rightarrow> server" where
  "join_room i r st = st\<lparr>sids := set_add i r (sids st), rooms := set_add r i (rooms st)\<rparr>"

text \<open>
  The adapter's \<open>_del(room, id)\<close>: take the socket out of the room, report it when it was
  a member, and drop a room that became empty.
\<close>

fun room_del :: "room \<Rightarrow> sid \<Rightarrow> (room \<times> sid list) list \<Rightarrow> (room \<times> sid list) list" where
  "room_del r i [] = []"
| "room_del r i ((r', ms) # m) =
     (if r' = r then (if removeAll i ms = [] then m else (r', removeAll i ms) # m)
      else (r', ms) # room_del r i m)"

definition adapter_del :: "sid \<Rightarrow> room \<Rightarrow> server \<Rightarrow> server" where
  "adapter_del i r st =
     (let was = i \<in> set (members st r);
          st1 = st\<lparr>rooms := room_del r i (rooms st)\<rparr>
      in if was then effect (LeaveRoom i r) st1 else st1)"

text \<open>The adapter's \<open>delAll(id)\<close>, run when a socket closes.\<close>

definition leaveAll :: "sid \<Rightarrow> server \<Rightarrow> server" where
  "leaveAll i st =
     (let st1 = fold (adapter_del i) (socket_rooms st i) st
      in st1\<lparr>sids := filter (\<lambda>(j, _). j \<noteq> i) (sids st1)\<rparr>)"

text \<open>The local sockets an emit reaches.\<close>

definition recipients :: "server \<Rightarrow> target \<Rightarrow> sid list" where
  "recipients st t =
     (case t of
        ToSocket i \<Rightarrow> [i]
      | ToRoom r \<Rightarrow> members st r
      | ToRoomExcept r i \<Rightarrow> removeAll i (members st r)
      | ToAll \<Rightarrow> map sock_id (sockets st)
      | ToAllExcept i \<Rightarrow> removeAll i (map sock_id (sockets st)))"

subsection \<open>The cluster-wide snapshot\<close>

text \<open>
  \<open>safeFetchSockets\<close> races the adapter's \<open>fetchSockets()\<close> against a 750 ms guard
  timer.  The race has three outcomes: the fan-out answered in time, it failed, or the
  guard fired first.  A completed fan-out yields this process's sockets and those of the
  other processes (\<open>remote\<close>).
\<close>

definition GUARD_TIMEOUT_MS :: nat where
  "GUARD_TIMEOUT_MS = 750"

datatype fanout = Completed | Failed | TimedOut

record net =
  supportsGlobal :: bool
  remote :: "sock list"
  fanout :: fanout

text \<open>\<open>byId.set(s.id, s)\<close> on an insertion-ordered map.\<close>

fun by_id_set :: "sock \<Rightarrow> sock list \<Rightarrow> sock list" where
  "by_id_set s [] = [s]"
| "by_id_set s (t # rest) =
     (if sock_id t = sock_id s then s # rest else t # by_id_set s rest)"

definition safeFetchSockets :: "server \<Rightarrow> net \<Rightarrow> sock list" where
  "safeFetchSockets st n =
     (let local = sockets st in
      if \<not> supportsGlobal n then local
      else case fanout n of
             Completed \<Rightarrow> fold by_id_set (local @ remote n) (fold by_id_set local [])
           | Failed \<Rightarrow> local
           | TimedOut \<Rightarrow> local)"

section \<open>Pairing table, rooms of pairs and presence lists\<close>

text \<open>
  \<open>[a, b].sort()\<close> orders two strings by their code units; \<open>js_less\<close> is that
  order on byte strings.
\<close>

fun js_less :: "string \<Rightarrow> string \<Rightarrow> bool" where
  "js_less [] [] = False"
| "js_less [] (_ # _) = True"
| "js_less (_ # _) [] = False"
| "js_less (a # x) (b # y) =
     ((of_char a :: nat) < of_char b \<or> (a = b \<and> js_less x y))"

definition sort2 :: "string \<Rightarrow> string \<Rightarrow> string \<times> string" where
  "sort2 a b = (if js_less b a then (b, a) else (a, b))"

definition normalizePair :: "string \<Rightarrow> string \<Rightarrow> string" where
  "normalizePair a b = (case sort2 a b of (one, two) \<Rightarrow> one @ ''|'' @ two)"

definition allowedPairs :: "string list" where
  "allowedPairs = [normalizePair ''XR-1234'' ''XR-1238'']"

definition PAIRINGS_MAP :: "(string \<times> string) list" where
  "PAIRINGS_MAP = [(''XR-1234'', ''XR-1238''), (''XR-1238'', ''XR-1234'')]"

definition isPairAllowed :: "string \<Rightarrow> string \<Rightarrow> bool" where
  "isPairAllowed a b = (normalizePair a b \<in> set allowedPairs)"

definition getRoomIdForPair :: "string \<Rightarrow> string \<Rightarrow> room" where
  "getRoomIdForPair a b = (case sort2 a b of (one, two) \<Rightarrow> ''pair:'' @ one @ '':'' @ two)"

definition roomOf :: "string \<Rightarrow> room" where
  "roomOf x = ''xr:'' @ x"

definition metricsRoom :: "string \<Rightarrow> room" where
  "metricsRoom x = ''metrics:'' @ x"

definition is_pair_room :: "room \<Rightarrow> bool" where
  "is_pair_room r = (take 5 r = ''pair:'')"

text \<open>\<open>listRoomMembers\<close>: the identity of each member, or its socket id when it has none.\<close>

definition member_name :: "server \<Rightarrow> sid \<Rightarrow> string" where
  "member_name st i =
     (case sock_of st i of
        None \<Rightarrow> i
      | Some s \<Rightarrow> (case xrId (data s) of None \<Rightarrow> i | Some x \<Rightarrow> if x = [] then i else x))"

definition listRoomMembers :: "server \<Rightarrow> room \<Rightarrow> string list" where
  "listRoomMembers st r = map (member_name st) (members st r)"

text \<open>\<open>String.prototype.split\<close> on a one-character separator.\<close>

fun split_on :: "char \<Rightarrow> string \<Rightarrow> string list" where
  "split_on c [] = [[]]"
| "split_on c (x # xs) =
     (if x = c then [] # split_on c xs
      else (case split_on c xs of [] \<Rightarrow> [[x]] | p # ps \<Rightarrow> (x # p) # ps))"

text \<open>
  \<open>collectPairs\<close>: every pair room with at least two members gives the pair of its first
  two member names, read back from the normalised key.
\<close>

definition pair_of_key :: "string \<Rightarrow> string option \<times> string option" where
  "pair_of_key k =
     (case split_on CHR ''|'' k of
        [] \<Rightarrow> (None, None)
      | [a] \<Rightarrow> (Some a, None)
      | a # b # _ \<Rightarrow> (Some a, Some b))"

definition collectPairs :: "server \<Rightarrow> (string option \<times> string option) list" where
  "collectPairs st =
     concat (map (\<lambda>(r, _).
        if \<not> is_pair_room r then []
        else (case listRoomMembers st r of
                a # b # _ \<Rightarrow> [pair_of_key (normalizePair a b)]
              | _ \<Rightarrow> [])) (rooms st))"

definition broadcastPairs :: "server \<Rightarrow> server" where
  "broadcastPairs st = emit ToAll (RoomUpdate (collectPairs st)) st"

text \<open>
  \<open>buildDeviceListGlobal\<close>: one entry per identity seen in the snapshot, in the order of
  first appearance, the last socket seen for an identity giving the entry.
\<close>

definition name_or_unknown :: "string option \<Rightarrow> string" where
  "name_or_unknown v = (case v of None \<Rightarrow> ''Unknown'' | Some s \<Rightarrow> if s = [] then ''Unknown'' else s)"

fun entry_set :: "device_entry \<Rightarrow> device_entry list \<Rightarrow> device_entry list" where
  "entry_set e [] = [e]"
| "entry_set e (f # es) = (if d_xrId f = d_xrId e then e # es else f # entry_set e es)"

definition add_device :: "server \<Rightarrow> sock \<Rightarrow> device_entry list \<Rightarrow> device_entry list" where
  "add_device st s acc =
     (case xrId (data s) of
        None \<Rightarrow> acc
      | Some x \<Rightarrow>
          if x = [] then acc
          else entry_set \<lparr>d_xrId = x, d_deviceName = name_or_unknown (deviceName (data s)),
                          d_telemetry = telemetryByDevice st x\<rparr> acc)"

definition buildDeviceListGlobal :: "server \<Rightarrow> net \<Rightarrow> device_entry list" where
  "buildDeviceListGlobal st n = fold (add_device st) (safeFetchSockets st n) []"

definition broadcastDeviceList :: "net \<Rightarrow> server \<Rightarrow> server" where
  "broadcastDeviceList n st = emit ToAll (DeviceList (buildDeviceListGlobal st n)) st"

definition broadcastEmptyDeviceListOnce :: "server \<Rightarrow> server" where
  "broadcastEmptyDeviceListOnce st = emit ToAll (DeviceList []) st"

text \<open>
  \<open>join\<close> called on a socket object.  The registry may still hold the socket of a
  connection that has ended; Socket.IO has replaced the \<open>join\<close> of such a socket by a
  function that does nothing.
\<close>

definition socket_join :: "sid \<Rightarrow> room \<Rightarrow> server \<Rightarrow> server" where
  "socket_join i r st = (if sock_of st i = None then st else join_room i r st)"

text \<open>
  \<open>tryAutoPair\<close>: pair a device with its partner of the table when both are registered,
  the pair is allowed and their room has fewer than two members.  The result says whether
  the pair was formed.  Writing \<open>data.roomId\<close> of a socket whose connection has ended
  changes nothing that the server can reach.
\<close>

definition tryAutoPair :: "string \<Rightarrow> server \<Rightarrow> bool \<times> server" where
  "tryAutoPair deviceId st =
     (case map_of PAIRINGS_MAP deviceId of
        None \<Rightarrow> (False, st)
      | Some partnerId \<Rightarrow>
          (case (clients st deviceId, clients st partnerId) of
             (Some meSocket, Some partnerSocket) \<Rightarrow>
               if \<not> isPairAllowed deviceId partnerId then (False, st)
               else
                 let r = getRoomIdForPair deviceId partnerId in
                 if 2 \<le> length (members st r) then (False, st)
                 else
                   let st1 = socket_join partnerSocket r (socket_join meSocket r st);
                       st2 = set_data partnerSocket (\<lambda>d. d\<lparr>roomId := Some r\<rparr>)
                               (set_data meSocket (\<lambda>d. d\<lparr>roomId := Some r\<rparr>) st1);
                       st3 = emit (ToRoom r) (RoomJoined r (listRoomMembers st2 r)) st2
                   in (True, broadcastPairs st3)
           | _ \<Rightarrow> (False, st)))"

section \<open>Bounded histories\<close>

definition METRIC_WINDOW_MS :: int where
  "METRIC_WINDOW_MS = 24 * 60 * 60 * 1000"

text \<open>
  \<open>arr[0].ts < cutoff\<close>: the timestamp is converted to a number, so a missing one
  compares false and \<open>null\<close> compares as 0.  The loop of \<open>pushHist\<close> shifts the front
  entry while it is older than the cutoff.
\<close>

definition older :: "int \<Rightarrow> sample \<Rightarrow> bool" where
  "older cutoff s = num_less (to_number (ts s)) (of_int cutoff)"

fun evict :: "int \<Rightarrow> sample list \<Rightarrow> sample list" where
  "evict cutoff [] = []"
| "evict cutoff (s # rest) = (if older cutoff s then evict cutoff rest else s # rest)"

definition pushHist ::
  "(string \<rightharpoonup> sample list) \<Rightarrow> string \<Rightarrow> sample \<Rightarrow> int \<Rightarrow> (string \<rightharpoonup> sample list)" where
  "pushHist m x s now =
     (let arr = (case m x of None \<Rightarrow> [] | Some a \<Rightarrow> a) @ [s]
      in m(x \<mapsto> evict (now - METRIC_WINDOW_MS) arr))"

text \<open>
  \<open>addToMessageHistory\<close>: the stored copy gets an id and a fresh timestamp; the buffer
  drops its oldest message once it holds more than 100.
\<close>

definition addToMessageHistory :: "chat \<Rightarrow> int \<Rightarrow> string \<Rightarrow> server \<Rightarrow> server" where
  "addToMessageHistory m now stamp st =
     (let h = messageHistory st @ [m\<lparr>c_id := Some now, c_timestamp := stamp\<rparr>]
      in st\<lparr>messageHistory := (if 100 < length h then tl h else h)\<rparr>)"

text \<open>\<open>messageHistory.slice(-10)\<close>.\<close>

definition recent :: "chat list \<Rightarrow> chat list" where
  "recent h = drop (length h - 10) h"

section \<open>Connection lifecycle\<close>

text \<open>
  The \<open>disconnecting\<close> handler: a socket with an identity tells the others in each of its
  pair rooms that it leaves.
\<close>

definition notify_peer_left :: "sid \<Rightarrow> string \<Rightarrow> room \<Rightarrow> server \<Rightarrow> server" where
  "notify_peer_left i x r st =
     (if is_pair_room r then emit (ToRoomExcept r i) (PeerLeft x r) st else st)"

definition on_disconnecting :: "sid \<Rightarrow> server \<Rightarrow> server" where
  "on_disconnecting i st =
     (case data_of st i of
        None \<Rightarrow> st
      | Some d \<Rightarrow>
          (case xrId d of
             None \<Rightarrow> st
           | Some x \<Rightarrow>
               if x = [] then st
               else fold (notify_peer_left i x) (socket_rooms st i) st))"

text \<open>
  The \<open>disconnect\<close> handler, run with the data of the socket that closed: drop the
  identity from the registries, broadcast the device list and set a timer for the pair
  broadcast.
\<close>

definition unregister :: "string \<Rightarrow> sid \<Rightarrow> server \<Rightarrow> server" where
  "unregister x i st =
     st\<lparr>clients := (clients st)(x := None),
        onlineDevices := (onlineDevices st)(x := None),
        desktopClients :=
          (if desktopClients st x = Some i then (desktopClients st)(x := None)
           else desktopClients st)\<rparr>"

definition on_disconnect :: "sockdata \<Rightarrow> sid \<Rightarrow> net \<Rightarrow> server \<Rightarrow> server" where
  "on_disconnect d i n st =
     (let st1 = (case xrId d of
                   None \<Rightarrow> st
                 | Some x \<Rightarrow> if x = [] then st else unregister x i st)
      in effect (Schedule 0 BroadcastPairs) (broadcastDeviceList n st1))"

text \<open>
  The end of a connection, as Socket.IO runs it (also for \<open>socket.disconnect(true)\<close>): the
  \<open>disconnecting\<close> handler, then the socket leaves its rooms and the namespace, then the
  \<open>disconnect\<close> handler.
\<close>

definition close :: "sid \<Rightarrow> net \<Rightarrow> server \<Rightarrow> server" where
  "close i n st =
     (case sock_of st i of
        None \<Rightarrow> st
      | Some s \<Rightarrow>
          let st1 = on_disconnecting i st;
              st2 = leaveAll i st1;
              st3 = effect (Closed i) (st2\<lparr>sockets := filter (\<lambda>t. sock_id t \<noteq> i) (sockets st2)\<rparr>)
          in on_disconnect (data s) i n st3)"

text \<open>
  A new connection: Socket.IO puts the socket in the room of its own id; the handler
  replays the last ten chat messages, if any, and sends the presence and pair snapshots.
\<close>

definition on_connection :: "sid \<Rightarrow> net \<Rightarrow> server \<Rightarrow> server" where
  "on_connection i n st =
     (if i \<in> sock_id ` set (sockets st) then st
      else
        let st0 = join_room i i (st\<lparr>sockets := sockets st @ [\<lparr>sock_id = i, data = no_data\<rparr>]\<rparr>);
            st1 = (if messageHistory st0 \<noteq> []
                   then emit (ToSocket i) (MessageHistory (recent (messageHistory st0))) st0
                   else st0);
            st2 = emit (ToSocket i) (DeviceList (buildDeviceListGlobal st1 n)) st1
        in emit (ToSocket i) (RoomUpdate (collectPairs st2)) st2)"

section \<open>Identity: join and identify\<close>

definition register :: "string \<Rightarrow> sid \<Rightarrow> server \<Rightarrow> server" where
  "register x i st =
     st\<lparr>clients := (clients st)(x \<mapsto> i), onlineDevices := (onlineDevices st)(x \<mapsto> i)\<rparr>"

definition on_join :: "sid \<Rightarrow> string \<Rightarrow> net \<Rightarrow> net \<Rightarrow> server \<Rightarrow> server" where
  "on_join i x n1 n2 st =
     (let st1 = set_data i (\<lambda>d. d\<lparr>xrId := Some x\<rparr>) st;
          st2 = join_room i (roomOf x) st1;
          st3 = register x i st2;
          st4 = emit (ToSocket i) (DeviceList (buildDeviceListGlobal st3 n1)) st3
      in broadcastDeviceList n2 st4)"

text \<open>\<open>deviceName.toLowerCase().includes('desktop')\<close> on byte strings.\<close>

definition lower_char :: "char \<Rightarrow> char" where
  "lower_char c =
     (let k = (of_char c :: nat) in if 65 \<le> k \<and> k \<le> 90 then char_of (k + 32) else c)"

fun str_includes :: "string \<Rightarrow> string \<Rightarrow> bool" where
  "str_includes [] p = (p = [])"
| "str_includes (c # cs) p = (take (length p) (c # cs) = p \<or> str_includes cs p)"

definition is_desktop :: "string option \<Rightarrow> string \<Rightarrow> bool" where
  "is_desktop dn x =
     ((case dn of None \<Rightarrow> False | Some name \<Rightarrow> str_includes (map lower_char name) ''desktop'')
      \<or> x = ''XR-1238'')"

text \<open>The socket that already holds an identity, as the duplicate guard finds it.\<close>

definition find_holder :: "sock list \<Rightarrow> sid \<Rightarrow> string \<Rightarrow> sock option" where
  "find_holder all i x = find (\<lambda>s. sock_id s \<noteq> i \<and> xrId (data s) = Some x) all"

definition holderInfo :: "string \<Rightarrow> sock \<Rightarrow> holder_info" where
  "holderInfo x holder =
     \<lparr>h_xrId = x,
      h_deviceName = name_or_unknown (deviceName (data holder)),
      h_since = (case connectedAt (data holder) of
                   None \<Rightarrow> None
                 | Some t \<Rightarrow> if t = 0 then None else Some t),
      h_socketId = sock_id holder\<rparr>"

definition reject_duplicate :: "sid \<Rightarrow> string \<Rightarrow> sock \<Rightarrow> net \<Rightarrow> server \<Rightarrow> server" where
  "reject_duplicate i x holder nc st =
     (let st1 = broadcastEmptyDeviceListOnce st;
          st2 = effect (Schedule 1200 RebroadcastDeviceList) st1;
          st3 = emit (ToSocket i) (DuplicateId x (holderInfo x holder)) st2
      in close i nc st3)"

definition has_room :: "server \<Rightarrow> sid \<Rightarrow> bool" where
  "has_room st i = (case data_of st i of None \<Rightarrow> False | Some d \<Rightarrow> truthy (roomId d))"

text \<open>
  An accepted claim: the socket takes the identity, enters the registries and the room of
  the identity, the device lists go out; then, unless the socket is already in a pair
  room, automatic pairing is tried.
\<close>

definition enter :: "sid \<Rightarrow> string option \<Rightarrow> string \<Rightarrow> int \<Rightarrow> net \<Rightarrow> net \<Rightarrow> server \<Rightarrow> server" where
  "enter i dn x now n1 n2 st =
     (let st1 = set_data i (\<lambda>d. d\<lparr>deviceName := Some (name_or_unknown dn), xrId := Some x,
                                  connectedAt := Some now\<rparr>) st;
          st2 = join_room i (roomOf x) st1;
          st3 = register x i st2;
          st4 = (if is_desktop dn x
                 then st3\<lparr>desktopClients := (desktopClients st3)(x \<mapsto> i)\<rparr> else st3);
          st5 = emit (ToSocket i) (DeviceList (buildDeviceListGlobal st4 n1)) st4
      in broadcastDeviceList n2 st5)"

definition accept :: "sid \<Rightarrow> string option \<Rightarrow> string \<Rightarrow> int \<Rightarrow> net \<Rightarrow> net \<Rightarrow> server \<Rightarrow> server" where
  "accept i dn x now n1 n2 st =
     (let st6 = enter i dn x now n1 n2 st
      in if has_room st6 i then st6 else snd (tryAutoPair x st6))"

text \<open>
  The \<open>identify\<close> handler.  \<open>ng\<close> is the cluster as the duplicate guard's snapshot meets
  it, \<open>n1\<close> and \<open>n2\<close> as the two device lists of an accepted claim meet it, \<open>nc\<close> as the
  device list sent after a rejected socket closed meets it.
\<close>

definition on_identify ::
  "sid \<Rightarrow> string option \<Rightarrow> string option \<Rightarrow> int \<Rightarrow> net \<Rightarrow> net \<Rightarrow> net \<Rightarrow> net \<Rightarrow> server \<Rightarrow> server" where
  "on_identify i dn xid now ng n1 n2 nc st =
     (if \<not> truthy xid
      then close i nc (emit (ToSocket i) (ErrorMsg ''Missing xrId'') st)
      else
        let x = (case xid of None \<Rightarrow> [] | Some v \<Rightarrow> v) in
        case find_holder (safeFetchSockets st ng) i x of
          Some holder \<Rightarrow> reject_duplicate i x holder nc st
        | None \<Rightarrow> accept i dn x now n1 n2 st)"

section \<open>Manual pairing\<close>

definition on_pair_with :: "sid \<Rightarrow> string option \<Rightarrow> server \<Rightarrow> server" where
  "on_pair_with i peerId st =
     (let me = (case data_of st i of None \<Rightarrow> None | Some d \<Rightarrow> xrId d) in
      if \<not> truthy me \<or> \<not> truthy peerId
      then emit (ToSocket i) (PairError ''Identify and provide peerId'') st
      else
        let a = (case me of None \<Rightarrow> [] | Some v \<Rightarrow> v);
            b = (case peerId of None \<Rightarrow> [] | Some v \<Rightarrow> v) in
        if \<not> isPairAllowed a b
        then emit (ToSocket i) (PairError ''Pairing not allowed'') st
        else
          let r = getRoomIdForPair a b;
              st1 = join_room i r st;
              st2 = set_data i (\<lambda>d. d\<lparr>roomId := Some r\<rparr>) st1;
              st3 = emit (ToRoom r) (RoomJoined r (listRoomMembers st2 r)) st2
          in broadcastPairs st3)"

section \<open>Signal routing and quality samples\<close>

text \<open>
  A \<open>signal\<close> payload after normalisation; a payload that is a string and does not
  parse as JSON is \<open>None\<close>.  \<open>s_samples\<close> is \<open>None\<close> when the field is not an
  array; an element of the array is \<open>None\<close> when it is \<open>null\<close>, and any other
  element is read as an object (a field that it does not have is undefined).
\<close>

record signal_msg =
  s_type :: "string option"
  s_deviceId :: "string option"
  s_samples :: "sample option list option"
  s_from :: "string option"
  s_to :: "string option"
  s_data :: json

text \<open>
  The loop over the samples of a quality feed; \<open>pushHist\<close> reads the clock at every
  turn, \<open>clock k\<close> being the reading at turn \<open>k\<close>.  Reading \<open>s.ts\<close> of an element
  that is \<open>null\<close> throws: the loop stops there, what it has stored stays stored, and
  the second component of the result is \<open>False\<close>.
\<close>

fun push_each ::
  "(string \<rightharpoonup> sample list) \<Rightarrow> string \<Rightarrow> sample option list \<Rightarrow> (nat \<Rightarrow> int) \<Rightarrow> nat
     \<Rightarrow> (string \<rightharpoonup> sample list) \<times> bool" where
  "push_each m x [] clock k = (m, True)"
| "push_each m x (None # ss) clock k = (m, False)"
| "push_each m x (Some s # ss) clock k = push_each (pushHist m x s (clock k)) x ss clock (Suc k)"

text \<open>
  For stating what the loop does: the samples in front of the first \<open>null\<close>, and the
  pushes of a list of samples one after the other, the push at turn \<open>k\<close> taking its
  cutoff from the clock reading \<open>clock k\<close>.
\<close>

fun leading :: "'a option list \<Rightarrow> 'a list" where
  "leading [] = []"
| "leading (None # ss) = []"
| "leading (Some s # ss) = s # leading ss"

fun push_all ::
  "(string \<rightharpoonup> sample list) \<Rightarrow> string \<Rightarrow> sample list \<Rightarrow> (nat \<Rightarrow> int) \<Rightarrow> nat
     \<Rightarrow> (string \<rightharpoonup> sample list)" where
  "push_all m x [] clock k = m"
| "push_all m x (s # ss) clock k = push_all (pushHist m x s (clock k)) x ss clock (Suc k)"

text \<open>
  The quality branch of the \<open>signal\<close> handler.  It runs inside the handler's \<open>try\<close>:
  when the loop throws, the handler logs the error and emits nothing.
\<close>

definition quality_feed :: "signal_msg \<Rightarrow> (nat \<Rightarrow> int) \<Rightarrow> server \<Rightarrow> server" where
  "quality_feed msg clock st =
     (let samples = (case s_samples msg of None \<Rightarrow> [] | Some ss \<Rightarrow> ss) in
      if truthy (s_deviceId msg) \<and> samples \<noteq> []
      then
        let dev = (case s_deviceId msg of None \<Rightarrow> [] | Some v \<Rightarrow> v);
            (hist, completed) = push_each (qualityHist st) dev samples clock 0;
            st1 = st\<lparr>qualityHist := hist\<rparr>
        in if \<not> completed then st1
           else
             let st2 = emit (ToRoom (metricsRoom dev)) (MetricsUpdateQuality dev samples) st1
             in emit ToAll (WebrtcQualityUpdate dev samples) st2
      else st)"

definition or_else :: "string option \<Rightarrow> string \<Rightarrow> string" where
  "or_else v d = (case v of None \<Rightarrow> d | Some s \<Rightarrow> if s = [] then d else s)"

definition room_of_socket :: "server \<Rightarrow> sid \<Rightarrow> room" where
  "room_of_socket st i =
     (case data_of st i of None \<Rightarrow> [] | Some d \<Rightarrow> (case roomId d of None \<Rightarrow> [] | Some r \<Rightarrow> r))"

definition no_room_message :: string where
  "no_room_message = ''No room joined and no '' @ [CHR 0x22] @ ''to'' @ [CHR 0x22] @ '' specified''"

text \<open>
  Routing of every other signal: to the room of the addressed identity when \<open>to\<close> is
  set, else to the others in the sender's room, else an error back to the sender.  The
  relayed envelope takes \<open>type\<close>, \<open>from\<close> and \<open>data\<close> from the payload.
\<close>

definition route_signal :: "sid \<Rightarrow> signal_msg \<Rightarrow> server \<Rightarrow> server" where
  "route_signal i msg st =
     (let ev = Signal (s_type msg) (s_from msg) (Relayed (s_data msg)) in
      if truthy (s_to msg) then emit (ToRoom (roomOf (or_else (s_to msg) []))) ev st
      else if \<not> has_room st i then emit (ToSocket i) (SignalError no_room_message) st
      else emit (ToRoomExcept (room_of_socket st i) i) ev st)"

definition on_signal :: "sid \<Rightarrow> signal_msg option \<Rightarrow> (nat \<Rightarrow> int) \<Rightarrow> server \<Rightarrow> server" where
  "on_signal i payload clock st =
     (case payload of
        None \<Rightarrow> st
      | Some msg \<Rightarrow>
          if s_type msg = Some ''webrtc_quality_update'' then quality_feed msg clock st
          else route_signal i msg st)"

text \<open>An effect that relays a signaling envelope.\<close>

definition is_signal :: "effect \<Rightarrow> bool" where
  "is_signal x = (case x of Emit _ (Signal _ _ _) \<Rightarrow> True | _ \<Rightarrow> False)"

section \<open>Chat messages\<close>

record message_in =
  m_type :: "string option"
  m_from :: "string option"
  m_to :: "string option"
  m_text :: "string option"
  m_urgent :: bool
  m_final :: bool
  m_timestamp :: "string option"

text \<open>
  The \<open>message\<close> handler.  A transcript is forwarded as a signal and, when final and not
  empty, handed to the external note generator, whose later emits are outside this model;
  any other message is stored in the history and relayed.  \<open>stamp\<close> is the time as an
  ISO string when the handler runs, \<open>now\<close> and \<open>stamp'\<close> the time when the message is
  stored.
\<close>

definition on_message ::
  "sid \<Rightarrow> message_in option \<Rightarrow> string \<Rightarrow> int \<Rightarrow> string \<Rightarrow> server \<Rightarrow> server" where
  "on_message i payload stamp now stamp' st =
     (case payload of
        None \<Rightarrow> st
      | Some dat \<Rightarrow>
          let timestamp = or_else (m_timestamp dat) stamp in
          if or_else (m_type dat) ''message'' = ''transcript''
          then
            let ev = Signal (Some ''transcript_console'') (m_from dat)
                       (TranscriptOut (m_from dat) (m_to dat) (m_text dat) (m_final dat) timestamp);
                st1 = (if truthy (m_to dat) then emit (ToRoom (roomOf (or_else (m_to dat) []))) ev st
                       else if has_room st i then emit (ToRoom (room_of_socket st i)) ev st
                       else st)
            in if m_final dat \<and> truthy (m_text dat)
               then effect (GenerateSoapNote (or_else (m_text dat) [])) st1 else st1
          else
            let msg = \<lparr>c_from = m_from dat, c_to = m_to dat, c_text = m_text dat,
                       c_urgent = m_urgent dat,
                       c_sender = or_else (case data_of st i of None \<Rightarrow> None
                                           | Some d \<Rightarrow> deviceName d)
                                    (or_else (m_from dat) ''unknown''),
                       c_timestamp = timestamp, c_id = None\<rparr>;
                st1 = addToMessageHistory msg now stamp' st
            in if truthy (m_to dat) then emit (ToRoom (roomOf (or_else (m_to dat) []))) (Message msg) st1
               else if has_room st1 i then emit (ToRoom (room_of_socket st1 i)) (Message msg) st1
               else emit (ToAllExcept i) (Message msg) st1)"

section \<open>Telemetry\<close>

record telemetry_in =
  ti_xrId :: "string option"
  ti_readings :: json

definition series :: "(string \<rightharpoonup> sample list) \<Rightarrow> string \<Rightarrow> sample list" where
  "series m x = (case m x of None \<Rightarrow> [] | Some a \<Rightarrow> a)"

definition last_opt :: "'a list \<Rightarrow> 'a option" where
  "last_opt xs = (case rev xs of [] \<Rightarrow> None | x # _ \<Rightarrow> Some x)"

text \<open>\<open>d.xrId || socket.data?.xrId\<close>: the identity a telemetry record is filed under.\<close>

definition telemetry_ident :: "server \<Rightarrow> sid \<Rightarrow> telemetry_in \<Rightarrow> string option" where
  "telemetry_ident st i d =
     (if truthy (ti_xrId d) then ti_xrId d
      else (case data_of st i of None \<Rightarrow> None | Some sd \<Rightarrow> xrId sd))"

text \<open>
  The \<open>telemetry\<close> handler.  The record is stamped with the server's clock (\<open>t_rec\<close>);
  \<open>pushHist\<close> reads the clock again (\<open>t_push\<close>) for the cutoff.  The payload is
  \<open>None\<close> when it is a string that does not parse to an object.
\<close>

definition on_telemetry :: "sid \<Rightarrow> telemetry_in option \<Rightarrow> int \<Rightarrow> int \<Rightarrow> server \<Rightarrow> server" where
  "on_telemetry i payload t_rec t_push st =
     (case payload of
        None \<Rightarrow> st
      | Some d \<Rightarrow>
          if \<not> truthy (telemetry_ident st i d) then st
          else
            let x = or_else (telemetry_ident st i d) [];
                rec = \<lparr>t_xrId = x, t_readings = ti_readings d, t_ts = t_rec\<rparr>;
                st1 = st\<lparr>telemetryByDevice := (telemetryByDevice st)(x \<mapsto> rec)\<rparr>;
                st2 = st1\<lparr>telemetryHist :=
                        pushHist (telemetryHist st1) x
                          \<lparr>ts = stamp_now t_rec, readings = ti_readings d\<rparr> t_push\<rparr>;
                st3 = emit (ToRoom (metricsRoom x))
                        (MetricsUpdateTelemetry x (last_opt (series (telemetryHist st2) x))) st2
            in emit ToAll (TelemetryUpdate rec) st3)"

text \<open>
  \<open>POST /desktop-telemetry\<close>: the same record and the same history entry for the
  identity of the request body, which must be a non-empty string; no \<open>metrics_update\<close>
  is emitted on this path.
\<close>

definition on_desktop_telemetry :: "telemetry_in \<Rightarrow> int \<Rightarrow> int \<Rightarrow> server \<Rightarrow> server" where
  "on_desktop_telemetry d t_rec t_push st =
     (if \<not> truthy (ti_xrId d) then effect (Respond 400) st
      else
        let x = or_else (ti_xrId d) [];
            rec = \<lparr>t_xrId = x, t_readings = ti_readings d, t_ts = t_rec\<rparr>;
            st1 = st\<lparr>telemetryByDevice := (telemetryByDevice st)(x \<mapsto> rec)\<rparr>;
            st2 = st1\<lparr>telemetryHist :=
                    pushHist (telemetryHist st1) x
                      \<lparr>ts = stamp_now t_rec, readings = ti_readings d\<rparr> t_push\<rparr>;
            st3 = emit ToAll (TelemetryUpdate rec) st2
        in effect (Respond 204) st3)"

section \<open>Quality snapshots\<close>

record quality_in =
  q_xrId :: "string option"
  q_ts :: tsval
  q_readings :: json

text \<open>\<open>Map.prototype.set\<close> on a map kept in insertion order.\<close>

fun map_set :: "'k \<Rightarrow> 'v \<Rightarrow> ('k \<times> 'v) list \<Rightarrow> ('k \<times> 'v) list" where
  "map_set k v [] = [(k, v)]"
| "map_set k v ((k', v') # m) = (if k' = k then (k, v) # m else (k', v') # map_set k v m)"

text \<open>
  The \<open>webrtc_quality\<close> handler.  The snapshot keeps the client's timestamp when that is
  a true value and takes the server's clock (\<open>t_snap\<close>) otherwise.  A payload that is
  \<open>null\<close> or missing is \<open>None\<close>: the handler returns when the socket has no
  identity, and reading \<open>q.ts\<close> throws when it has one.
\<close>

definition on_webrtc_quality :: "sid \<Rightarrow> quality_in option \<Rightarrow> int \<Rightarrow> int \<Rightarrow> server \<Rightarrow> server" where
  "on_webrtc_quality i payload t_snap t_push st =
     (case payload of
        None \<Rightarrow> st
      | Some q \<Rightarrow>
          let ident = (if truthy (q_xrId q) then q_xrId q
                       else (case data_of st i of None \<Rightarrow> None | Some sd \<Rightarrow> xrId sd)) in
          if \<not> truthy ident then st
          else
            let x = or_else ident [];
                t = (if ts_truthy (q_ts q) then q_ts q else stamp_now t_snap);
                snap = \<lparr>qs_xrId = x, qs_ts = t, qs_readings = q_readings q\<rparr>;
                st1 = st\<lparr>qualityByDevice := map_set x snap (qualityByDevice st)\<rparr>;
                st2 = st1\<lparr>qualityHist :=
                        pushHist (qualityHist st1) x \<lparr>ts = t, readings = q_readings q\<rparr> t_push\<rparr>;
                st3 = emit (ToRoom (metricsRoom x))
                        (MetricsUpdateQuality x [last_opt (series (qualityHist st2) x)]) st2
            in emit ToAll (WebrtcQualitySnapshots (map snd (qualityByDevice st3))) st3)"

section \<open>Metrics subscriptions, presence requests and timers\<close>

text \<open>The \<open>message_history\<close> handler: the last ten messages, on demand.\<close>

definition on_message_history :: "sid \<Rightarrow> server \<Rightarrow> server" where
  "on_message_history i st = emit (ToSocket i) (MessageHistory (recent (messageHistory st))) st"

definition on_metrics_subscribe :: "sid \<Rightarrow> string option \<Rightarrow> server \<Rightarrow> server" where
  "on_metrics_subscribe i xid st =
     (if \<not> truthy xid then st
      else
        let x = or_else xid [] in
        emit (ToSocket i)
          (MetricsSnapshot x (series (telemetryHist st) x) (series (qualityHist st) x))
          (join_room i (metricsRoom x) st))"

text \<open>\<open>socket.leave(r)\<close>, the adapter's \<open>del\<close>.\<close>

definition leave_room :: "sid \<Rightarrow> room \<Rightarrow> server \<Rightarrow> server" where
  "leave_room i r st =
     adapter_del i r
       (st\<lparr>sids := map (\<lambda>(j, rs). if j = i then (j, removeAll r rs) else (j, rs)) (sids st)\<rparr>)"

definition on_metrics_unsubscribe :: "sid \<Rightarrow> string option \<Rightarrow> server \<Rightarrow> server" where
  "on_metrics_unsubscribe i xid st =
     (if \<not> truthy xid then st else leave_room i (metricsRoom (or_else xid [])) st)"

definition on_request_device_list :: "sid \<Rightarrow> net \<Rightarrow> server \<Rightarrow> server" where
  "on_request_device_list i n st = emit (ToSocket i) (DeviceList (buildDeviceListGlobal st n)) st"

definition run_task :: "task \<Rightarrow> net \<Rightarrow> server \<Rightarrow> server" where
  "run_task t n st =
     (case t of RebroadcastDeviceList \<Rightarrow> broadcastDeviceList n st | BroadcastPairs \<Rightarrow> broadcastPairs st)"

section \<open>Runs of the server\<close>

text \<open>
  What reaches the server: a new connection, an event of a connected socket with its
  payload and the clock readings and snapshots its handler meets, a telemetry request
  over HTTP, the end of a connection, a timer that fires.  A handler is taken to run to
  its end before the next input is handled: the interleaving of handlers at their
  \<open>await\<close> points is outside this model, and so are payloads whose identity fields are
  not strings.  The handlers that only relay (\<open>control\<close>, \<open>clear-messages\<close>,
  \<open>clear_confirmation\<close>, \<open>status_report\<close>) and the \<open>battery\<close> handler, which
  keeps the battery level, write none of the state modelled here and have no input.
\<close>

datatype input =
    Connection sid net
  | Join sid string net net
  | Identify sid "string option" "string option" int net net net net
  | PairWith sid "string option"
  | SignalIn sid "signal_msg option" "nat \<Rightarrow> int"
  | MessageIn sid "message_in option" string int string
  | TelemetryIn sid "telemetry_in option" int int
  | DesktopTelemetry telemetry_in int int
  | WebrtcQuality sid "quality_in option" int int
  | MessageHistoryRequest sid
  | MetricsSubscribe sid "string option"
  | MetricsUnsubscribe sid "string option"
  | RequestDeviceList sid net
  | Close sid net
  | Timer task net

definition connected :: "server \<Rightarrow> sid \<Rightarrow> bool" where
  "connected st i = (sock_of st i \<noteq> None)"

fun step :: "server \<Rightarrow> input \<Rightarrow> server" where
  "step st (Connection i n) = on_connection i n st"
| "step st (Join i x n1 n2) = (if connected st i then on_join i x n1 n2 st else st)"
| "step st (Identify i dn xid now ng n1 n2 nc) =
     (if connected st i then on_identify i dn xid now ng n1 n2 nc st else st)"
| "step st (PairWith i p) = (if connected st i then on_pair_with i p st else st)"
| "step st (SignalIn i p clock) = (if connected st i then on_signal i p clock st else st)"
| "step st (MessageIn i p stamp now stamp') =
     (if connected st i then on_message i p stamp now stamp' st else st)"
| "step st (TelemetryIn i p t_rec t_push) =
     (if connected st i then on_telemetry i p t_rec t_push st else st)"
| "step st (DesktopTelemetry d t_rec t_push) = on_desktop_telemetry d t_rec t_push st"
| "step st (WebrtcQuality i p t_snap t_push) =
     (if connected st i then on_webrtc_quality i p t_snap t_push st else st)"
| "step st (MessageHistoryRequest i) = (if connected st i then on_message_history i st else st)"
| "step st (MetricsSubscribe i x) = (if connected st i then on_metrics_subscribe i x st else st)"
| "step st (MetricsUnsubscribe i x) =
     (if connected st i then on_metrics_unsubscribe i x st else st)"
| "step st (RequestDeviceList i n) =
     (if connected st i then on_request_device_list i n st else st)"
| "step st (Close i n) = close i n st"
| "step st (Timer t n) = run_task t n st"

definition run :: "server \<Rightarrow> input list \<Rightarrow> server" where
  "run st ins = foldl step st ins"

text \<open>
  The clock readings of the two telemetry handlers along a run, in the order they are
  taken.
\<close>

fun clock_readings :: "input list \<Rightarrow> int list" where
  "clock_readings [] = []"
| "clock_readings (TelemetryIn i p t_rec t_push # ins) = t_rec # t_push # clock_readings ins"
| "clock_readings (DesktopTelemetry d t_rec t_push # ins) = t_rec # t_push # clock_readings ins"
| "clock_readings (_ # ins) = clock_readings ins"


section \<open>Well-stamped series\<close>

text \<open>The timestamp of an entry when it is a finite number.\<close>

definition stamp_of :: "sample \<Rightarrow> rat option" where
  "stamp_of s = (case ts s of TsNumber (Finite r) \<Rightarrow> Some r | _ \<Rightarrow> None)"


text \<open>
  The retention rule in the words of the specification: an entry is inside the window
  when its timestamp is a finite number that is not below the cutoff, and a series is
  within the window when every entry is.
\<close>

definition inside_window :: "int \<Rightarrow> sample \<Rightarrow> bool" where
  "inside_window cutoff s = (case stamp_of s of None \<Rightarrow> False | Some t \<Rightarrow> of_int cutoff \<le> t)"

definition within_window :: "int \<Rightarrow> sample list \<Rightarrow> bool" where
  "within_window cutoff a = list_all (inside_window cutoff) a"




section \<open>Reading the effect log\<close>

text \<open>
  An effect that turns a connection away: a \<open>duplicate_id\<close> or \<open>error\<close> emit, or the
  end of a connection.
\<close>

definition is_rejection :: "effect \<Rightarrow> bool" where
  "is_rejection x =
     (case x of
        Emit _ (DuplicateId _ _) \<Rightarrow> True
      | Emit _ (ErrorMsg _) \<Rightarrow> True
      | Closed _ \<Rightarrow> True
      | _ \<Rightarrow> False)"

definition is_peer_left :: "effect \<Rightarrow> bool" where
  "is_peer_left x = (case x of Emit _ (PeerLeft _ _) \<Rightarrow> True | _ \<Rightarrow> False)"

text \<open>The \<open>peer_left\<close> emits of a closing socket, one per pair room it is in.\<close>

definition peer_left_notes :: "server \<Rightarrow> sid \<Rightarrow> effect list" where
  "peer_left_notes st i =
     (case data_of st i of
        None \<Rightarrow> []
      | Some d \<Rightarrow>
          (case xrId d of
             None \<Rightarrow> []
           | Some x \<Rightarrow>
               if x = [] then []
               else map (\<lambda>r. Emit (ToRoomExcept r i) (PeerLeft x r))
                      (filter is_pair_room (socket_rooms st i))))"


text \<open>The socket is connected and its data carry the identity.\<close>

definition registered_as :: "server \<Rightarrow> sid \<Rightarrow> string \<Rightarrow> bool" where
  "registered_as st i x = (case data_of st i of None \<Rightarrow> False | Some d \<Rightarrow> xrId d = Some x)"


text \<open>
  The adapter's maps are consistent: no room is listed twice, and every member of a room
  has the room among its own rooms.
\<close>

definition adapter_ok :: "server \<Rightarrow> bool" where
  "adapter_ok st \<longleftrightarrow>
     distinct (map fst (rooms st))
     \<and> (\<forall>i r. i \<in> set (members st r) \<longrightarrow> r \<in> set (socket_rooms st i))"

section \<open>Example inputs\<close>

text \<open>A process without a backplane, and one message, telemetry and signal payload.\<close>

definition net0 :: net where
  "net0 = \<lparr>supportsGlobal = False, remote = [], fanout = Completed\<rparr>"

definition hello :: message_in where
  "hello = \<lparr>m_type = None, m_from = Some ''XR-1234'', m_to = None, m_text = Some ''hello'',
      m_urgent = False, m_final = False, m_timestamp = None\<rparr>"

definition hello_chat :: chat where
  "hello_chat = \<lparr>c_from = Some ''XR-1234'', c_to = None, c_text = Some ''hello'',
      c_urgent = False, c_sender = ''XR-1234'', c_timestamp = ''T1'', c_id = None\<rparr>"

definition tel :: telemetry_in where
  "tel = \<lparr>ti_xrId = Some ''XR-1234'', ti_readings = ''wifi''\<rparr>"

definition quality_without_device :: signal_msg where
  "quality_without_device =
     \<lparr>s_type = Some ''webrtc_quality_update'', s_deviceId = None,
      s_samples = Some [Some \<lparr>ts = TsNumber (Finite 5), readings = ''jitter''\<rparr>],
      s_from = None, s_to = None, s_data = []\<rparr>"

text \<open>
  A quality feed addressed to a peer: a sample whose timestamp is \<open>null\<close>, then one
  stamped inside the window of the clock reading used with it.  And a feed whose second
  element is \<open>null\<close>.
\<close>

definition quality_feed_msg :: signal_msg where
  "quality_feed_msg =
     \<lparr>s_type = Some ''webrtc_quality_update'', s_deviceId = Some ''XR-1234'',
      s_samples = Some [Some \<lparr>ts = TsNull, readings = ''rtt''\<rparr>,
                        Some \<lparr>ts = TsNumber (Finite 4000000), readings = ''jitter''\<rparr>],
      s_from = None, s_to = Some ''XR-1238'', s_data = []\<rparr>"

definition quality_feed_null :: signal_msg where
  "quality_feed_null =
     \<lparr>s_type = Some ''webrtc_quality_update'', s_deviceId = Some ''XR-1234'',
      s_samples = Some [Some \<lparr>ts = TsNumber (Finite 4000000), readings = ''jitter''\<rparr>, None,
                        Some \<lparr>ts = TsNumber (Finite 5000000), readings = ''rtt''\<rparr>],
      s_from = None, s_to = Some ''XR-1238'', s_data = []\<rparr>"

definition forged_offer :: signal_msg where
  "forged_offer =
     \<lparr>s_type = Some ''offer'', s_deviceId = None, s_samples = None,
      s_from = Some ''XR-9999'', s_to = Some ''XR-1238'', s_data = ''sdp''\<rparr>"

text \<open>
  A connection on another process that holds XR-1234, and the cluster as a snapshot meets
  it when the guard timer wins the race.
\<close>

definition remote_holder :: sock where
  "remote_holder =
     \<lparr>sock_id = ''h'',
      data = \<lparr>xrId = Some ''XR-1234'', deviceName = Some ''Glass'', connectedAt = Some 3,
               roomId = None\<rparr>\<rparr>"

definition net_timeout :: net where
  "net_timeout = \<lparr>supportsGlobal = True, remote = [remote_holder], fanout = TimedOut\<rparr>"

definition net_global :: net where
  "net_global = \<lparr>supportsGlobal = True, remote = [remote_holder], fanout = Completed\<rparr>"

text \<open>A holder of XR-1234 on this process, then a second connection.\<close>

definition local_holder :: sock where
  "local_holder =
     \<lparr>sock_id = ''h'',
      data = \<lparr>xrId = Some ''XR-1234'', deviceName = Some ''Glass'', connectedAt = Some 3,
               roomId = None\<rparr>\<rparr>"

definition holder_then_claimant :: "input list" where
  "holder_then_claimant =
     [Connection ''h'' net0,
      Identify ''h'' (Some ''Glass'') (Some ''XR-1234'') 3 net0 net0 net0 net0,
      Connection ''c'' net0]"

text \<open>A headset and a desktop identify and are paired automatically.\<close>

definition paired_run :: "input list" where
  "paired_run =
     [Connection ''a'' net0, Connection ''b'' net0,
      Identify ''a'' (Some ''Glass'') (Some ''XR-1234'') 3 net0 net0 net0 net0,
      Identify ''b'' (Some ''Desktop'') (Some ''XR-1238'') 4 net0 net0 net0 net0]"

text \<open>
  Two connections join as XR-1234 and one as XR-1238; each asks to be paired with the
  other identity.
\<close>

definition three_in_room :: "input list" where
  "three_in_room =
     [Connection ''s1'' net0, Join ''s1'' ''XR-1234'' net0 net0,
      Connection ''s2'' net0, Join ''s2'' ''XR-1238'' net0 net0,
      Connection ''s3'' net0, Join ''s3'' ''XR-1234'' net0 net0,
      PairWith ''s1'' (Some ''XR-1238''), PairWith ''s2'' (Some ''XR-1234''),
      PairWith ''s3'' (Some ''XR-1238'')]"

text \<open>
  A holder announces itself as the client does (join, then identify); a second
  connection does the same for the same identity.
\<close>

definition holder_announced :: "input list" where
  "holder_announced =
     [Connection ''h'' net0, Join ''h'' ''XR-1234'' net0 net0,
      Identify ''h'' (Some ''Glass'') (Some ''XR-1234'') 3 net0 net0 net0 net0]"

definition duplicate_announced :: "input list" where
  "duplicate_announced =
     [Connection ''c'' net0, Join ''c'' ''XR-1234'' net0 net0,
      Identify ''c'' (Some ''Glass2'') (Some ''XR-1234'') 9 net0 net0 net0 net0]"

text \<open>
  A connection joins as XR-1234, joins again under another identity and closes: the
  registry keeps its socket under XR-1234.  Then the partner XR-1238 identifies.
\<close>

definition stale_partner :: "input list" where
  "stale_partner =
     [Connection ''s1'' net0, Join ''s1'' ''XR-1234'' net0 net0, Join ''s1'' ''XR-7'' net0 net0,
      Close ''s1'' net0, Connection ''s2'' net0,
      Identify ''s2'' (Some ''Desktop'') (Some ''XR-1238'') 4 net0 net0 net0 net0]"

section \<open>Properties of the client outbox\<close>

lemma send_flags [simp]:
  "has_socket (send c e d) = has_socket c"
  "isConnected (send c e d) = isConnected c"
  by (simp_all add: send_def)

lemma sends_append: "sends c (ms @ ns) = sends (sends c ms) ns"
  by (induction c ms rule: sends.induct) simp_all

lemma sends_flags [simp]:
  "has_socket (sends c ms) = has_socket c"
  "isConnected (sends c ms) = isConnected c"
  by (induction c ms rule: sends.induct) simp_all

lemma send_offline:
  "\<not> isConnected c \<Longrightarrow>
     wire (send c e d) = wire c \<and>
     outbox (send c e d) =
       (if length (outbox c) < OUTBOX_MAX then outbox c @ [(e, d)] else tl (outbox c) @ [(e, d)])"
  by (simp add: send_def)

lemma sends_offline_wire: "\<not> isConnected c \<Longrightarrow> wire (sends c ms) = wire c"
  by (induction c ms rule: sends.induct) (simp_all add: send_offline)

lemma step_window:
  assumes "q = drop (length l - n) l" "0 < n"
  shows "(if length q < n then q @ [x] else tl q @ [x]) = drop (length (l @ [x]) - n) (l @ [x])"
proof (cases "length l < n")
  case True
  then show ?thesis using assms by simp
next
  case False
  then have k: "length (l @ [x]) - n = Suc (length l - n)" by simp
  have len: "length q = n" using assms False by simp
  have "tl q @ [x] = drop (Suc (length l - n)) l @ [x]"
    using assms by (simp add: drop_Suc tl_drop)
  also have "\<dots> = drop (Suc (length l - n)) (l @ [x])"
    using False assms(2) by simp
  finally show ?thesis using len k by simp
qed

lemma sends_offline_outbox:
  assumes "\<not> isConnected c" and "length (outbox c) \<le> OUTBOX_MAX"
  shows "outbox (sends c ms) = drop (length (outbox c @ ms) - OUTBOX_MAX) (outbox c @ ms)"
proof (induction ms rule: rev_induct)
  case Nil
  then show ?case using assms(2) by simp
next
  case (snoc x ms)
  obtain e d where x: "x = (e, d)" by (cases x)
  define l where "l = outbox c @ ms"
  define q where "q = outbox (sends c ms)"
  have ih: "q = drop (length l - OUTBOX_MAX) l" using snoc by (simp add: l_def q_def)
  have off: "\<not> isConnected (sends c ms)" using assms by simp
  have "outbox (sends c (ms @ [x])) = (if length q < OUTBOX_MAX then q @ [x] else tl q @ [x])"
    using send_offline [OF off, of e d] by (simp add: sends_append x q_def)
  also have "\<dots> = drop (length (l @ [x]) - OUTBOX_MAX) (l @ [x])"
    by (rule step_window [OF ih]) (simp add: OUTBOX_MAX_def)
  finally show ?case by (simp add: l_def)
qed


lemma client_step_outbox:
  "length (outbox c) \<le> OUTBOX_MAX \<Longrightarrow> length (outbox (client_step c ev)) \<le> OUTBOX_MAX"
  by (cases ev)
     (auto simp add: connect_def send_def client_disconnect_def client_close_def onConnect_def
        onDisconnect_def onConnectError_def OUTBOX_MAX_def)

lemma client_run_outbox:
  "length (outbox c) \<le> OUTBOX_MAX \<Longrightarrow> length (outbox (client_run c evs)) \<le> OUTBOX_MAX"
  unfolding client_run_def
  by (induction evs arbitrary: c) (simp_all add: client_step_outbox)

text \<open>
  C6.  Take a client in any state it can reach after its construction, with a socket
  that is not connected.  If it now issues more than 200 sends, it keeps exactly the most
  recent 200 of them in the outbox, in their original order, and emits nothing meanwhile.
  When the connection comes up, \<open>_onConnect\<close> emits join, identify and
  request\_device\_list, then each of the 200 queued sends as an emit of its own, oldest
  first, and empties the outbox; an application send made afterwards is emitted after all
  of them.
\<close>

theorem outbox_fifo:
  assumes "new_client name ident = Inr c0" and "c = client_run c0 evs"
    and "has_socket c" and "\<not> isConnected c" and "OUTBOX_MAX < length ms"
  shows "outbox (sends c ms) = drop (length ms - 200) ms
       \<and> length (outbox (sends c ms)) = 200
       \<and> wire (sends c ms) = wire c
       \<and> outbox (onConnect (sends c ms)) = []
       \<and> isConnected (onConnect (sends c ms))
       \<and> wire (onConnect (sends c ms)) =
           wire c
           @ [frame.Join (this_xrId c), frame.Identify (this_deviceName c) (this_xrId c), frame.RequestDeviceList]
           @ map (\<lambda>(event, dat). App event dat) (drop (length ms - 200) ms)
       \<and> wire (send (onConnect (sends c ms)) event dat) =
           wire (onConnect (sends c ms)) @ [App event dat]
       \<and> outbox (send (onConnect (sends c ms)) event dat) = []"
proof -
  have "outbox c0 = []"
    using assms(1) by (auto simp add: new_client_def split: if_splits)
  then have len: "length (outbox c) \<le> OUTBOX_MAX"
    unfolding assms(2) by (intro client_run_outbox) simp
  have ob: "outbox (sends c ms) = drop (length ms - OUTBOX_MAX) ms"
    using sends_offline_outbox [OF assms(4) len, of ms] len assms(5) by simp
  have w: "wire (sends c ms) = wire c"
    using assms(4) by (rule sends_offline_wire)
  have a: "announce (sends c ms) = announce c"
    by (induction c ms rule: sends.induct) (simp_all add: announce_def send_def)
  have k: "OUTBOX_MAX = 200" by (simp add: OUTBOX_MAX_def)
  show ?thesis
    using ob w a assms(3,5)
    by (simp add: onConnect_def send_def flush_def k) (simp add: announce_def)
qed

theorem outbox_fifo_witness:
  "wire (send (onConnect (sends (client_run \<lparr>this_deviceName = ''Glass'',
        this_xrId = ''XR-1234'', has_socket = False, isConnected = False, manualClose = False,
        outbox = [], wire = []\<rparr> [CallConnect, SocketConnect, SocketDisconnect])
      (map (\<lambda>i. (''signal'', i)) [0..<201]))) ''message'' 999)
     = [frame.Join ''XR-1234'', frame.Identify ''Glass'' ''XR-1234'', frame.RequestDeviceList,
        frame.Join ''XR-1234'', frame.Identify ''Glass'' ''XR-1234'', frame.RequestDeviceList]
       @ map (\<lambda>i. App ''signal'' i) [1..<201] @ [App ''message'' 999]
   \<and> outbox (sends (client_run \<lparr>this_deviceName = ''Glass'',
        this_xrId = ''XR-1234'', has_socket = False, isConnected = False, manualClose = False,
        outbox = [], wire = []\<rparr> [CallConnect, SocketConnect, SocketDisconnect])
      (map (\<lambda>i. (''signal'', i)) [0..<201]))
     = map (\<lambda>i. (''signal'', i)) [1..<201]"
proof -
  let ?new = "\<lparr>this_deviceName = ''Glass'', this_xrId = ''XR-1234'',
        has_socket = False, isConnected = False, manualClose = False, outbox = [],
        wire = []\<rparr> :: nat client"
  let ?c = "client_run ?new [CallConnect, SocketConnect, SocketDisconnect]"
  let ?ms = "map (\<lambda>i. (''signal'', i)) [0..<201]"
  have n: "new_client ''Glass'' ''XR-1234'' = Inr ?new"
    by (simp add: new_client_def)
  have h: "has_socket ?c" "\<not> isConnected ?c" "OUTBOX_MAX < length ?ms"
    by (simp_all add: client_run_def connect_def onConnect_def onDisconnect_def OUTBOX_MAX_def)
  have w: "wire ?c = [frame.Join ''XR-1234'', frame.Identify ''Glass'' ''XR-1234'', frame.RequestDeviceList]"
    by (simp add: client_run_def connect_def onConnect_def onDisconnect_def announce_def
        flush_def)
  have f: "this_xrId ?c = ''XR-1234''" "this_deviceName ?c = ''Glass''"
    by (simp_all add: client_run_def connect_def onConnect_def onDisconnect_def)
  have d: "drop (length ?ms - 200) ?ms = map (\<lambda>i. (''signal'', i)) [1..<201]"
    by (simp add: drop_map)
  from outbox_fifo [where evs = "[CallConnect, SocketConnect, SocketDisconnect]", OF n refl h,
      of "''message''" 999]
  show ?thesis
    unfolding d w f by (simp add: comp_def)
qed

section \<open>Frame lemmas\<close>

subsection \<open>What the basic operations leave alone\<close>

lemma emit_frame [simp]:
  "messageHistory (emit t e st) = messageHistory st"
  "telemetryHist (emit t e st) = telemetryHist st"
  "qualityHist (emit t e st) = qualityHist st"
  "sockets (emit t e st) = sockets st"
  "rooms (emit t e st) = rooms st"
  "sids (emit t e st) = sids st"
  "clients (emit t e st) = clients st"
  "onlineDevices (emit t e st) = onlineDevices st"
  "desktopClients (emit t e st) = desktopClients st"
  "telemetryByDevice (emit t e st) = telemetryByDevice st"
  "out (emit t e st) = out st @ [Emit t e]"
  by (simp_all add: emit_def)

lemma effect_frame [simp]:
  "messageHistory (effect x st) = messageHistory st"
  "telemetryHist (effect x st) = telemetryHist st"
  "qualityHist (effect x st) = qualityHist st"
  "sockets (effect x st) = sockets st"
  "rooms (effect x st) = rooms st"
  "sids (effect x st) = sids st"
  "clients (effect x st) = clients st"
  "onlineDevices (effect x st) = onlineDevices st"
  "desktopClients (effect x st) = desktopClients st"
  "telemetryByDevice (effect x st) = telemetryByDevice st"
  "out (effect x st) = out st @ [x]"
  by (simp_all add: effect_def)

lemma set_data_frame [simp]:
  "messageHistory (set_data i f st) = messageHistory st"
  "telemetryHist (set_data i f st) = telemetryHist st"
  "qualityHist (set_data i f st) = qualityHist st"
  "rooms (set_data i f st) = rooms st"
  "sids (set_data i f st) = sids st"
  "clients (set_data i f st) = clients st"
  "onlineDevices (set_data i f st) = onlineDevices st"
  "desktopClients (set_data i f st) = desktopClients st"
  "telemetryByDevice (set_data i f st) = telemetryByDevice st"
  "out (set_data i f st) = out st"
  by (simp_all add: set_data_def)

lemma join_room_frame [simp]:
  "messageHistory (join_room i r st) = messageHistory st"
  "telemetryHist (join_room i r st) = telemetryHist st"
  "qualityHist (join_room i r st) = qualityHist st"
  "sockets (join_room i r st) = sockets st"
  "clients (join_room i r st) = clients st"
  "onlineDevices (join_room i r st) = onlineDevices st"
  "desktopClients (join_room i r st) = desktopClients st"
  "telemetryByDevice (join_room i r st) = telemetryByDevice st"
  "out (join_room i r st) = out st"
  by (simp_all add: join_room_def)

lemma socket_join_frame [simp]:
  "messageHistory (socket_join i r st) = messageHistory st"
  "telemetryHist (socket_join i r st) = telemetryHist st"
  "qualityHist (socket_join i r st) = qualityHist st"
  "sockets (socket_join i r st) = sockets st"
  "clients (socket_join i r st) = clients st"
  "onlineDevices (socket_join i r st) = onlineDevices st"
  "desktopClients (socket_join i r st) = desktopClients st"
  "telemetryByDevice (socket_join i r st) = telemetryByDevice st"
  "out (socket_join i r st) = out st"
  by (simp_all add: socket_join_def)

lemma adapter_del_frame [simp]:
  "messageHistory (adapter_del i r st) = messageHistory st"
  "telemetryHist (adapter_del i r st) = telemetryHist st"
  "qualityHist (adapter_del i r st) = qualityHist st"
  "sockets (adapter_del i r st) = sockets st"
  "sids (adapter_del i r st) = sids st"
  "clients (adapter_del i r st) = clients st"
  "onlineDevices (adapter_del i r st) = onlineDevices st"
  "desktopClients (adapter_del i r st) = desktopClients st"
  "telemetryByDevice (adapter_del i r st) = telemetryByDevice st"
  by (simp_all add: adapter_del_def Let_def)

lemma fold_adapter_del_frame [simp]:
  "messageHistory (fold (adapter_del i) rs st) = messageHistory st"
  "telemetryHist (fold (adapter_del i) rs st) = telemetryHist st"
  "qualityHist (fold (adapter_del i) rs st) = qualityHist st"
  "sockets (fold (adapter_del i) rs st) = sockets st"
  "sids (fold (adapter_del i) rs st) = sids st"
  "clients (fold (adapter_del i) rs st) = clients st"
  "onlineDevices (fold (adapter_del i) rs st) = onlineDevices st"
  "desktopClients (fold (adapter_del i) rs st) = desktopClients st"
  "telemetryByDevice (fold (adapter_del i) rs st) = telemetryByDevice st"
  by (induction rs arbitrary: st, simp_all)+

lemma leaveAll_frame [simp]:
  "messageHistory (leaveAll i st) = messageHistory st"
  "telemetryHist (leaveAll i st) = telemetryHist st"
  "qualityHist (leaveAll i st) = qualityHist st"
  "sockets (leaveAll i st) = sockets st"
  "clients (leaveAll i st) = clients st"
  "onlineDevices (leaveAll i st) = onlineDevices st"
  "desktopClients (leaveAll i st) = desktopClients st"
  "telemetryByDevice (leaveAll i st) = telemetryByDevice st"
  by (simp_all add: leaveAll_def Let_def)

lemma leave_room_frame [simp]:
  "messageHistory (leave_room i r st) = messageHistory st"
  "telemetryHist (leave_room i r st) = telemetryHist st"
  "qualityHist (leave_room i r st) = qualityHist st"
  "sockets (leave_room i r st) = sockets st"
  "clients (leave_room i r st) = clients st"
  by (simp_all add: leave_room_def)

lemma register_frame [simp]:
  "messageHistory (register x i st) = messageHistory st"
  "telemetryHist (register x i st) = telemetryHist st"
  "qualityHist (register x i st) = qualityHist st"
  "sockets (register x i st) = sockets st"
  "rooms (register x i st) = rooms st"
  "sids (register x i st) = sids st"
  "desktopClients (register x i st) = desktopClients st"
  "telemetryByDevice (register x i st) = telemetryByDevice st"
  "out (register x i st) = out st"
  by (simp_all add: register_def)

lemma unregister_frame [simp]:
  "messageHistory (unregister x i st) = messageHistory st"
  "telemetryHist (unregister x i st) = telemetryHist st"
  "qualityHist (unregister x i st) = qualityHist st"
  "sockets (unregister x i st) = sockets st"
  "rooms (unregister x i st) = rooms st"
  "sids (unregister x i st) = sids st"
  "telemetryByDevice (unregister x i st) = telemetryByDevice st"
  "out (unregister x i st) = out st"
  by (simp_all add: unregister_def)

lemma broadcast_frame [simp]:
  "messageHistory (broadcastPairs st) = messageHistory st"
  "telemetryHist (broadcastPairs st) = telemetryHist st"
  "qualityHist (broadcastPairs st) = qualityHist st"
  "messageHistory (broadcastDeviceList n st) = messageHistory st"
  "telemetryHist (broadcastDeviceList n st) = telemetryHist st"
  "qualityHist (broadcastDeviceList n st) = qualityHist st"
  "messageHistory (broadcastEmptyDeviceListOnce st) = messageHistory st"
  "telemetryHist (broadcastEmptyDeviceListOnce st) = telemetryHist st"
  "qualityHist (broadcastEmptyDeviceListOnce st) = qualityHist st"
  by (simp_all add: broadcastPairs_def broadcastDeviceList_def broadcastEmptyDeviceListOnce_def)

lemma tryAutoPair_hist [simp]:
  "messageHistory (snd (tryAutoPair x st)) = messageHistory st"
  "telemetryHist (snd (tryAutoPair x st)) = telemetryHist st"
  "qualityHist (snd (tryAutoPair x st)) = qualityHist st"
  by (simp_all add: tryAutoPair_def Let_def split: option.splits)

lemma fold_notify_hist [simp]:
  "messageHistory (fold (notify_peer_left i x) rs st) = messageHistory st"
  "telemetryHist (fold (notify_peer_left i x) rs st) = telemetryHist st"
  "qualityHist (fold (notify_peer_left i x) rs st) = qualityHist st"
  by (induction rs arbitrary: st, simp_all add: notify_peer_left_def)+

lemma on_disconnecting_hist [simp]:
  "messageHistory (on_disconnecting i st) = messageHistory st"
  "telemetryHist (on_disconnecting i st) = telemetryHist st"
  "qualityHist (on_disconnecting i st) = qualityHist st"
  by (simp_all add: on_disconnecting_def split: option.splits)

lemma on_disconnect_hist [simp]:
  "messageHistory (on_disconnect d i n st) = messageHistory st"
  "telemetryHist (on_disconnect d i n st) = telemetryHist st"
  "qualityHist (on_disconnect d i n st) = qualityHist st"
  by (simp_all add: on_disconnect_def Let_def split: option.splits)

lemma close_hist [simp]:
  "messageHistory (close i n st) = messageHistory st"
  "telemetryHist (close i n st) = telemetryHist st"
  "qualityHist (close i n st) = qualityHist st"
  by (simp_all add: close_def Let_def split: option.splits)

lemma on_connection_hist [simp]:
  "messageHistory (on_connection i n st) = messageHistory st"
  "telemetryHist (on_connection i n st) = telemetryHist st"
  "qualityHist (on_connection i n st) = qualityHist st"
  by (simp_all add: on_connection_def Let_def)

lemma on_join_hist [simp]:
  "messageHistory (on_join i x n1 n2 st) = messageHistory st"
  "telemetryHist (on_join i x n1 n2 st) = telemetryHist st"
  "qualityHist (on_join i x n1 n2 st) = qualityHist st"
  by (simp_all add: on_join_def Let_def)

lemma on_identify_hist [simp]:
  "messageHistory (on_identify i dn xid now ng n1 n2 nc st) = messageHistory st"
  "telemetryHist (on_identify i dn xid now ng n1 n2 nc st) = telemetryHist st"
  "qualityHist (on_identify i dn xid now ng n1 n2 nc st) = qualityHist st"
  by (simp_all add: on_identify_def accept_def enter_def reject_duplicate_def Let_def split: option.splits)

lemma on_pair_with_hist [simp]:
  "messageHistory (on_pair_with i p st) = messageHistory st"
  "telemetryHist (on_pair_with i p st) = telemetryHist st"
  "qualityHist (on_pair_with i p st) = qualityHist st"
  by (simp_all add: on_pair_with_def Let_def)

lemma on_signal_hist [simp]:
  "messageHistory (on_signal i p clock st) = messageHistory st"
  "telemetryHist (on_signal i p clock st) = telemetryHist st"
  by (simp_all add: on_signal_def quality_feed_def route_signal_def Let_def
      split: option.splits prod.splits)

lemma on_desktop_telemetry_hist [simp]:
  "messageHistory (on_desktop_telemetry d t1 t2 st) = messageHistory st"
  "qualityHist (on_desktop_telemetry d t1 t2 st) = qualityHist st"
  by (simp_all add: on_desktop_telemetry_def Let_def)

lemma on_webrtc_quality_hist [simp]:
  "messageHistory (on_webrtc_quality i p t1 t2 st) = messageHistory st"
  "telemetryHist (on_webrtc_quality i p t1 t2 st) = telemetryHist st"
  by (simp_all add: on_webrtc_quality_def Let_def split: option.splits)

lemma on_message_history_hist [simp]:
  "messageHistory (on_message_history i st) = messageHistory st"
  "telemetryHist (on_message_history i st) = telemetryHist st"
  "qualityHist (on_message_history i st) = qualityHist st"
  by (simp_all add: on_message_history_def)

lemma on_telemetry_hist [simp]:
  "messageHistory (on_telemetry i p t1 t2 st) = messageHistory st"
  "qualityHist (on_telemetry i p t1 t2 st) = qualityHist st"
  by (simp_all add: on_telemetry_def Let_def split: option.splits)

lemma on_message_hist [simp]:
  "telemetryHist (on_message i p stamp now stamp' st) = telemetryHist st"
  "qualityHist (on_message i p stamp now stamp' st) = qualityHist st"
  by (simp_all add: on_message_def addToMessageHistory_def Let_def split: option.splits)

lemma misc_hist [simp]:
  "messageHistory (on_metrics_subscribe i x st) = messageHistory st"
  "telemetryHist (on_metrics_subscribe i x st) = telemetryHist st"
  "qualityHist (on_metrics_subscribe i x st) = qualityHist st"
  "messageHistory (on_metrics_unsubscribe i x st) = messageHistory st"
  "telemetryHist (on_metrics_unsubscribe i x st) = telemetryHist st"
  "qualityHist (on_metrics_unsubscribe i x st) = qualityHist st"
  "messageHistory (on_request_device_list i n st) = messageHistory st"
  "telemetryHist (on_request_device_list i n st) = telemetryHist st"
  "qualityHist (on_request_device_list i n st) = qualityHist st"
  "messageHistory (run_task t n st) = messageHistory st"
  "telemetryHist (run_task t n st) = telemetryHist st"
  "qualityHist (run_task t n st) = qualityHist st"
  by (simp_all add: on_metrics_subscribe_def on_metrics_unsubscribe_def
      on_request_device_list_def run_task_def Let_def split: task.splits)

lemma find_map_data:
  "find (\<lambda>s. sock_id s = j) (map (\<lambda>s. if sock_id s = i then s\<lparr>data := f (data s)\<rparr> else s) l)
     = map_option (\<lambda>s. if sock_id s = i then s\<lparr>data := f (data s)\<rparr> else s)
         (find (\<lambda>s. sock_id s = j) l)"
  by (induction l) simp_all

lemma data_of_set_data:
  "data_of (set_data i f st) j = map_option (\<lambda>d. if j = i then f d else d) (data_of st j)"
proof (cases "find (\<lambda>s. sock_id s = j) (sockets st)")
  case None
  then show ?thesis by (simp add: data_of_def sock_of_def set_data_def find_map_data)
next
  case (Some s)
  then have "sock_id s = j" by (auto simp add: find_Some_iff)
  then show ?thesis using Some
    by (simp add: data_of_def sock_of_def set_data_def find_map_data)
qed

section \<open>Unfolding the model on concrete inputs\<close>

lemmas eval_defs =
  run_def connected_def sock_of_def data_of_def set_data_def members_def socket_rooms_def
  join_room_def adapter_del_def leaveAll_def recipients_def safeFetchSockets_def
  sort2_def normalizePair_def allowedPairs_def PAIRINGS_MAP_def isPairAllowed_def
  getRoomIdForPair_def roomOf_def metricsRoom_def is_pair_room_def member_name_def
  listRoomMembers_def pair_of_key_def collectPairs_def broadcastPairs_def name_or_unknown_def
  add_device_def buildDeviceListGlobal_def broadcastDeviceList_def
  broadcastEmptyDeviceListOnce_def tryAutoPair_def socket_join_def METRIC_WINDOW_MS_def older_def stamp_now_def stamp_of_def
  inside_window_def on_desktop_telemetry_def on_webrtc_quality_def on_message_history_def pushHist_def
  addToMessageHistory_def recent_def notify_peer_left_def on_disconnecting_def unregister_def
  on_disconnect_def close_def on_connection_def register_def on_join_def lower_char_def
  is_desktop_def find_holder_def holderInfo_def reject_duplicate_def has_room_def enter_def accept_def registered_as_def is_signal_def is_rejection_def peer_left_notes_def is_peer_left_def
  on_identify_def on_pair_with_def quality_feed_def or_else_def room_of_socket_def
  no_room_message_def route_signal_def on_signal_def on_message_def last_opt_def
  on_telemetry_def telemetry_ident_def series_def within_window_def on_metrics_subscribe_def leave_room_def
  on_metrics_unsubscribe_def on_request_device_list_def run_task_def truthy_def no_data_def
  init_server_def emit_def effect_def Let_def

section \<open>The chat history buffer\<close>

lemma addToMessageHistory_eq:
  "messageHistory (addToMessageHistory m now stamp st) =
     (if length (messageHistory st) < 100
      then messageHistory st @ [m\<lparr>c_id := Some now, c_timestamp := stamp\<rparr>]
      else tl (messageHistory st) @ [m\<lparr>c_id := Some now, c_timestamp := stamp\<rparr>])"
  by (cases "messageHistory st") (simp_all add: addToMessageHistory_def Let_def)

lemma on_message_len:
  "length (messageHistory st) \<le> 100 \<Longrightarrow>
     length (messageHistory (on_message i p stamp now stamp' st)) \<le> 100"
  by (auto simp add: on_message_def Let_def addToMessageHistory_eq split: option.splits)

lemma step_message_len:
  "length (messageHistory st) \<le> 100 \<Longrightarrow> length (messageHistory (step st inp)) \<le> 100"
  by (cases inp) (simp_all add: on_message_len)

lemma run_message_len:
  "length (messageHistory st) \<le> 100 \<Longrightarrow> length (messageHistory (run st ins)) \<le> 100"
  unfolding run_def
  by (induction ins arbitrary: st) (simp_all add: step_message_len)

lemma on_connection_out:
  "\<not> connected st i \<Longrightarrow>
     \<exists>l p. out (on_connection i n st) =
       out st
       @ (if messageHistory st = [] then []
          else [Emit (ToSocket i) (MessageHistory (recent (messageHistory st)))])
       @ [Emit (ToSocket i) (DeviceList l), Emit (ToSocket i) (RoomUpdate p)]"
  by (auto simp add: on_connection_def Let_def connected_def sock_of_def find_None_iff)

text \<open>
  C10.  In every state the server reaches from its start, whatever arrives, the chat
  history holds at most 100 messages; storing one more into a full buffer removes the
  oldest; and a new connection is sent one \<open>message_history\<close> with the last ten
  messages of the buffer (fewer when it holds fewer, none at all when it is empty),
  followed only by the presence and pair snapshots.
\<close>

theorem chat_history_bounded:
  assumes "st = run init_server ins" and "\<not> connected st i"
  shows "length (messageHistory st) \<le> 100
       \<and> messageHistory (addToMessageHistory m now stamp st) =
           (if length (messageHistory st) < 100
            then messageHistory st @ [m\<lparr>c_id := Some now, c_timestamp := stamp\<rparr>]
            else tl (messageHistory st) @ [m\<lparr>c_id := Some now, c_timestamp := stamp\<rparr>])
       \<and> recent (messageHistory st) = drop (length (messageHistory st) - 10) (messageHistory st)
       \<and> length (recent (messageHistory st)) \<le> 10
       \<and> (\<exists>l p. out (on_connection i n st) =
             out st
             @ (if messageHistory st = [] then []
                else [Emit (ToSocket i) (MessageHistory (recent (messageHistory st)))])
             @ [Emit (ToSocket i) (DeviceList l), Emit (ToSocket i) (RoomUpdate p)])"
proof -
  have "length (messageHistory init_server) \<le> 100"
    by (simp add: init_server_def)
  then have "length (messageHistory st) \<le> 100"
    unfolding assms(1) by (rule run_message_len)
  moreover have "length (recent (messageHistory st)) \<le> 10"
    by (simp add: recent_def)
  ultimately show ?thesis
    using on_connection_out [OF assms(2), of n] addToMessageHistory_eq [of m now stamp st]
    by (simp add: recent_def)
qed

theorem chat_history_bounded_witness:
  "length (messageHistory (run init_server
       [Connection ''a'' net0, MessageIn ''a'' (Some hello) ''T1'' 5 ''T2''])) \<le> 100
   \<and> (\<exists>l p. out (on_connection ''b'' net0 (run init_server
          [Connection ''a'' net0, MessageIn ''a'' (Some hello) ''T1'' 5 ''T2''])) =
        [Emit (ToSocket ''a'') (DeviceList []),
         Emit (ToSocket ''a'') (RoomUpdate []),
         Emit (ToAllExcept ''a'')
           (Message \<lparr>c_from = Some ''XR-1234'', c_to = None, c_text = Some ''hello'',
              c_urgent = False, c_sender = ''XR-1234'', c_timestamp = ''T1'', c_id = None\<rparr>),
         Emit (ToSocket ''b'')
           (MessageHistory
              [\<lparr>c_from = Some ''XR-1234'', c_to = None, c_text = Some ''hello'',
                 c_urgent = False, c_sender = ''XR-1234'', c_timestamp = ''T2'',
                 c_id = Some 5\<rparr>]),
         Emit (ToSocket ''b'') (DeviceList l),
         Emit (ToSocket ''b'') (RoomUpdate p)])"
proof -
  let ?ins = "[Connection ''a'' net0, MessageIn ''a'' (Some hello) ''T1'' 5 ''T2'']"
  have nc: "\<not> connected (run init_server ?ins) ''b''"
    by (simp add: eval_defs net0_def hello_def)
  have h: "messageHistory (run init_server ?ins) =
      [\<lparr>c_from = Some ''XR-1234'', c_to = None, c_text = Some ''hello'',
         c_urgent = False, c_sender = ''XR-1234'', c_timestamp = ''T2'', c_id = Some 5\<rparr>]"
    by (simp add: eval_defs net0_def hello_def)
  have o: "out (run init_server ?ins) =
      [Emit (ToSocket ''a'') (DeviceList []),
       Emit (ToSocket ''a'') (RoomUpdate []),
       Emit (ToAllExcept ''a'')
         (Message \<lparr>c_from = Some ''XR-1234'', c_to = None, c_text = Some ''hello'',
            c_urgent = False, c_sender = ''XR-1234'', c_timestamp = ''T1'', c_id = None\<rparr>)]"
    by (simp add: eval_defs net0_def hello_def)
  from chat_history_bounded [OF refl nc, of hello_chat 0 "''T''" net0]
  show ?thesis
    unfolding h o by (simp add: recent_def)
qed

section \<open>The telemetry window\<close>





lemma stamp_of_now [simp]: "stamp_of \<lparr>ts = stamp_now t, readings = r\<rparr> = Some (of_int t)"
  by (simp add: stamp_of_def stamp_now_def)



lemma within_window_filter: "within_window c (filter (inside_window c) a)"
  by (simp add: within_window_def list_all_iff)


lemma on_telemetry_series:
  assumes "telemetry_ident st i d = Some x" and "x \<noteq> []"
  shows "series (telemetryHist (on_telemetry i (Some d) t_rec t_push st)) y =
     (if y = x
      then evict (t_push - METRIC_WINDOW_MS)
             (series (telemetryHist st) x @ [\<lparr>ts = stamp_now t_rec, readings = ti_readings d\<rparr>])
      else series (telemetryHist st) y)"
  using assms
  by (simp add: on_telemetry_def truthy_def or_else_def Let_def pushHist_def series_def)








lemma clock_readings_Cons:
  "clock_readings (inp # ins) = clock_readings [inp] @ clock_readings ins"
  by (cases inp) simp_all

lemma clock_readings_append:
  "clock_readings (a @ b) = clock_readings a @ clock_readings b"
proof (induction a)
  case Nil
  then show ?case by simp
next
  case (Cons inp a)
  then show ?case
    using clock_readings_Cons [of inp "a @ b"] clock_readings_Cons [of inp a] by simp
qed








text \<open>
  Nothing limits the number of entries: \<open>n\<close> records ingested at one clock reading
  leave a series of \<open>n\<close> entries, for every \<open>n\<close>.
\<close>

lemma sockets_on_telemetry [simp]:
  "sockets (on_telemetry i p t1 t2 st) = sockets st"
  by (simp add: on_telemetry_def Let_def split: option.splits)

lemma grow_step:
  assumes "connected st i" and "ti_xrId d = Some x" and "x \<noteq> []"
    and "series (telemetryHist st) x = replicate k \<lparr>ts = stamp_now t, readings = ti_readings d\<rparr>"
  shows "series (telemetryHist (step st (TelemetryIn i (Some d) t t))) x
           = replicate (Suc k) \<lparr>ts = stamp_now t, readings = ti_readings d\<rparr>
       \<and> connected (step st (TelemetryIn i (Some d) t t)) i"
proof -
  let ?s = "\<lparr>ts = stamp_now t, readings = ti_readings d\<rparr>"
  have id: "telemetry_ident st i d = Some x"
    using assms(2,3) by (simp add: telemetry_ident_def truthy_def)
  have n: "\<not> older (t - METRIC_WINDOW_MS) ?s"
    by (simp add: older_def stamp_now_def METRIC_WINDOW_MS_def)
  have "replicate k ?s @ [?s] = ?s # replicate k ?s"
    by (simp add: replicate_append_same)
  then have "evict (t - METRIC_WINDOW_MS) (replicate k ?s @ [?s]) = replicate (Suc k) ?s"
    using n by simp
  then show ?thesis
    using assms(1,4) by (simp add: on_telemetry_series [OF id assms(3)] connected_def sock_of_def)
qed

lemma grow_run:
  assumes "connected st i" and "ti_xrId d = Some x" and "x \<noteq> []"
    and "series (telemetryHist st) x = replicate k \<lparr>ts = stamp_now t, readings = ti_readings d\<rparr>"
  shows "series (telemetryHist (run st (replicate n (TelemetryIn i (Some d) t t)))) x
           = replicate (k + n) \<lparr>ts = stamp_now t, readings = ti_readings d\<rparr>"
  using assms(1,4)
proof (induction n arbitrary: st k)
  case 0
  then show ?case by (simp add: run_def)
next
  case (Suc n)
  from grow_step [OF Suc.prems(1) assms(2,3) Suc.prems(2)]
  have "series (telemetryHist (run (step st (TelemetryIn i (Some d) t t))
            (replicate n (TelemetryIn i (Some d) t t)))) x
      = replicate (Suc k + n) \<lparr>ts = stamp_now t, readings = ti_readings d\<rparr>"
    by (intro Suc.IH) simp_all
  then show ?case by (simp add: run_def)
qed

lemma telemetry_series_unbounded:
  "length (series (telemetryHist (run init_server
      (Connection ''a'' net0 # replicate n (TelemetryIn ''a'' (Some tel) t t)))) ''XR-1234'') = n"
proof -
  let ?st = "run init_server [Connection ''a'' net0]"
  have c: "connected ?st ''a''" by (simp add: eval_defs net0_def)
  have e: "series (telemetryHist ?st) ''XR-1234''
      = replicate 0 \<lparr>ts = stamp_now t, readings = ti_readings tel\<rparr>"
    by (simp add: eval_defs net0_def)
  have x: "ti_xrId tel = Some ''XR-1234''" by (simp add: tel_def)
  have "run init_server (Connection ''a'' net0 # replicate n (TelemetryIn ''a'' (Some tel) t t))
      = run ?st (replicate n (TelemetryIn ''a'' (Some tel) t t))"
    by (simp add: run_def)
  then show ?thesis
    using grow_run [OF c x _ e, of n] by simp
qed

section \<open>Signals: quality feed and relay\<close>

lemma suffix_evict: "suffix (evict c a) a"
  by (induction a) (auto intro: suffix_ConsI)

lemma series_pushHist:
  "series (pushHist m x s now) y =
     (if y = x then evict (now - METRIC_WINDOW_MS) (series m x @ [s]) else series m y)"
  by (simp add: pushHist_def series_def Let_def)

lemma push_all_other: "y \<noteq> x \<Longrightarrow> push_all m x ss clock k y = m y"
  by (induction m x ss clock k rule: push_all.induct) (simp_all add: pushHist_def Let_def)

lemma push_all_suffix: "suffix (series (push_all m x ss clock k) x) (series m x @ ss)"
proof (induction m x ss clock k rule: push_all.induct)
  case (1 m x clock k)
  then show ?case by simp
next
  case (2 m x s ss clock k)
  have "suffix (series (pushHist m x s (clock k)) x) (series m x @ [s])"
    using suffix_evict [of "clock k - METRIC_WINDOW_MS" "series m x @ [s]"]
    by (simp only: series_pushHist refl if_True)
  then have "suffix (series (pushHist m x s (clock k)) x @ ss) ((series m x @ [s]) @ ss)"
    by (auto simp add: suffix_def)
  with 2 show ?case
    using suffix_order.trans by fastforce
qed

lemma push_each_push_all:
  "push_each m x ss clock k = (push_all m x (leading ss) clock k, None \<notin> set ss)"
  by (induction m x ss clock k rule: push_each.induct) simp_all

text \<open>
  C7, as the code has it.  A signal whose type is \<open>webrtc_quality_update\<close> is never
  relayed as a signaling envelope, whatever its \<open>to\<close> field says.  When it names a
  device and carries a non-empty array of samples, the samples in front of the first
  \<open>null\<close> element are pushed in order onto that device's quality series and nothing
  else of the state changes; the series afterwards is an end piece of the old series
  followed by those samples, \<open>pushHist\<close> evicting only from the front.  When no element
  is \<open>null\<close> the batch is then emitted to the room of the device's metrics subscribers
  and to everyone; when one is, nothing is emitted.  An envelope without a device or
  without samples has no effect at all.
\<close>

theorem quality_feed_intercepted:
  assumes "s_type msg = Some ''webrtc_quality_update''"
  shows "let st' = on_signal i (Some msg) clock st;
             dev = or_else (s_deviceId msg) [];
             samples = (case s_samples msg of None \<Rightarrow> [] | Some ss \<Rightarrow> ss)
         in filter is_signal (out st') = filter is_signal (out st)
          \<and> (if truthy (s_deviceId msg) \<and> samples \<noteq> []
             then st' = st\<lparr>qualityHist := push_all (qualityHist st) dev (leading samples) clock 0,
                            out := out st @
                              (if None \<in> set samples then []
                               else [Emit (ToRoom (metricsRoom dev)) (MetricsUpdateQuality dev samples),
                                     Emit ToAll (WebrtcQualityUpdate dev samples)])\<rparr>
                \<and> suffix (series (qualityHist st') dev)
                     (series (qualityHist st) dev @ leading samples)
                \<and> recipients st' (ToRoom (metricsRoom dev)) = members st (metricsRoom dev)
             else st' = st)"
proof -
  have "or_else (s_deviceId msg) [] = d" if "s_deviceId msg = Some d" for d
    using that by (simp add: or_else_def)
  then show ?thesis
    using assms push_all_suffix [of "qualityHist st" "or_else (s_deviceId msg) []" _ clock 0]
    by (auto simp add: on_signal_def quality_feed_def Let_def is_signal_def truthy_def
        recipients_def members_def or_else_def push_each_push_all emit_def
        split: option.splits)
qed

text \<open>
  The sentence of the specification is too strong: a quality envelope that names no device is swallowed; its
  sample is neither stored nor broadcast.
\<close>

theorem quality_feed_dropped:
  "step (run init_server [Connection ''a'' net0])
        (SignalIn ''a'' (Some quality_without_device) (\<lambda>k. 10))
     = run init_server [Connection ''a'' net0]"
  by (simp add: eval_defs net0_def quality_without_device_def)

theorem quality_feed_intercepted_witness:
  "on_signal ''a'' (Some quality_feed_msg) (\<lambda>k. 90000000)
       (run init_server [Connection ''a'' net0, MetricsSubscribe ''a'' (Some ''XR-1234'')])
     = (run init_server [Connection ''a'' net0, MetricsSubscribe ''a'' (Some ''XR-1234'')])
         \<lparr>qualityHist := [''XR-1234'' \<mapsto> [\<lparr>ts = TsNumber (Finite 4000000), readings = ''jitter''\<rparr>]],
          out := out (run init_server
                   [Connection ''a'' net0, MetricsSubscribe ''a'' (Some ''XR-1234'')])
            @ [Emit (ToRoom ''metrics:XR-1234'')
                 (MetricsUpdateQuality ''XR-1234''
                    [Some \<lparr>ts = TsNull, readings = ''rtt''\<rparr>,
                     Some \<lparr>ts = TsNumber (Finite 4000000), readings = ''jitter''\<rparr>]),
               Emit ToAll
                 (WebrtcQualityUpdate ''XR-1234''
                    [Some \<lparr>ts = TsNull, readings = ''rtt''\<rparr>,
                     Some \<lparr>ts = TsNumber (Finite 4000000), readings = ''jitter''\<rparr>])]\<rparr>
   \<and> recipients (on_signal ''a'' (Some quality_feed_msg) (\<lambda>k. 90000000)
          (run init_server [Connection ''a'' net0, MetricsSubscribe ''a'' (Some ''XR-1234'')]))
        (ToRoom ''metrics:XR-1234'') = [''a'']
   \<and> filter is_signal (out (on_signal ''a'' (Some quality_feed_msg) (\<lambda>k. 90000000)
          (run init_server [Connection ''a'' net0, MetricsSubscribe ''a'' (Some ''XR-1234'')])))
       = []
   \<and> on_signal ''a'' (Some quality_feed_null) (\<lambda>k. 90000000)
       (run init_server [Connection ''a'' net0, MetricsSubscribe ''a'' (Some ''XR-1234'')])
     = (run init_server [Connection ''a'' net0, MetricsSubscribe ''a'' (Some ''XR-1234'')])
         \<lparr>qualityHist := [''XR-1234'' \<mapsto> [\<lparr>ts = TsNumber (Finite 4000000), readings = ''jitter''\<rparr>]]\<rparr>"
proof -
  let ?st = "run init_server [Connection ''a'' net0, MetricsSubscribe ''a'' (Some ''XR-1234'')]"
  have t: "s_type quality_feed_msg = Some ''webrtc_quality_update''"
    "s_type quality_feed_null = Some ''webrtc_quality_update''"
    by (simp_all add: quality_feed_msg_def quality_feed_null_def)
  have m: "members ?st ''metrics:XR-1234'' = [''a'']"
    by (simp add: eval_defs net0_def)
  have o: "filter is_signal (out ?st) = []"
    by (simp add: eval_defs net0_def is_signal_def)
  have q: "qualityHist ?st = Map.empty"
    by (simp add: run_def init_server_def)
  have c: "truthy (s_deviceId quality_feed_msg) = True"
    "truthy (s_deviceId quality_feed_null) = True"
    by (simp_all add: quality_feed_msg_def quality_feed_null_def truthy_def)
  have dv: "or_else (s_deviceId quality_feed_msg) [] = ''XR-1234''"
    "or_else (s_deviceId quality_feed_null) [] = ''XR-1234''"
    by (simp_all add: quality_feed_msg_def quality_feed_null_def or_else_def)
  have sm: "(case s_samples quality_feed_msg of None \<Rightarrow> [] | Some ss \<Rightarrow> ss)
      = [Some \<lparr>ts = TsNull, readings = ''rtt''\<rparr>,
         Some \<lparr>ts = TsNumber (Finite 4000000), readings = ''jitter''\<rparr>]"
    "(case s_samples quality_feed_null of None \<Rightarrow> [] | Some ss \<Rightarrow> ss)
      = [Some \<lparr>ts = TsNumber (Finite 4000000), readings = ''jitter''\<rparr>, None,
         Some \<lparr>ts = TsNumber (Finite 5000000), readings = ''rtt''\<rparr>]"
    by (simp_all add: quality_feed_msg_def quality_feed_null_def)
  have mr: "metricsRoom ''XR-1234'' = ''metrics:XR-1234''"
    by (simp add: metricsRoom_def)
  have p: "pushHist (pushHist Map.empty ''XR-1234'' \<lparr>ts = TsNull, readings = ''rtt''\<rparr> 90000000)
       ''XR-1234'' \<lparr>ts = TsNumber (Finite 4000000), readings = ''jitter''\<rparr> 90000000
     = [''XR-1234'' \<mapsto> [\<lparr>ts = TsNumber (Finite 4000000), readings = ''jitter''\<rparr>]]"
    "pushHist Map.empty ''XR-1234''
       \<lparr>ts = TsNumber (Finite 4000000), readings = ''jitter''\<rparr> 90000000
     = [''XR-1234'' \<mapsto> [\<lparr>ts = TsNumber (Finite 4000000), readings = ''jitter''\<rparr>]]"
    by (simp_all add: pushHist_def older_def METRIC_WINDOW_MS_def)
  from quality_feed_intercepted [OF t(1), of "''a''" "\<lambda>k. 90000000" ?st]
    quality_feed_intercepted [OF t(2), of "''a''" "\<lambda>k. 90000000" ?st]
  show ?thesis
    unfolding Let_def c dv sm mr m q
    by (simp add: o is_signal_def p recipients_def members_def m [unfolded members_def])
qed

lemma roomId_set_data_xrId:
  "has_room (set_data i (\<lambda>d. d\<lparr>xrId := v\<rparr>) st) j = has_room st j"
  "room_of_socket (set_data i (\<lambda>d. d\<lparr>xrId := v\<rparr>) st) j = room_of_socket st j"
  by (cases "data_of st j"; simp add: has_room_def room_of_socket_def data_of_set_data)+

text \<open>
  C8, as the code has it.  A signal of any other type adds exactly one effect: the
  envelope relayed to the room of the addressed identity, or to the others in the
  sender's room, or an error to the sender.  The relayed envelope carries the type, the
  \<open>from\<close> and the data of the client's payload unchanged, and what is emitted does not
  depend on the identity the sending connection is registered under.
\<close>

theorem signal_from_passthrough:
  assumes "s_type msg \<noteq> Some ''webrtc_quality_update''"
  shows "let st' = on_signal i (Some msg) clock st;
             ev = Signal (s_type msg) (s_from msg) (Relayed (s_data msg))
         in st' = st\<lparr>out := out st @
                  [if truthy (s_to msg) then Emit (ToRoom (roomOf (or_else (s_to msg) []))) ev
                   else if has_room st i then Emit (ToRoomExcept (room_of_socket st i) i) ev
                   else Emit (ToSocket i) (SignalError no_room_message)]\<rparr>
          \<and> out (on_signal i (Some msg) clock (set_data i (\<lambda>d. d\<lparr>xrId := v\<rparr>) st))
              = out st'"
  using assms
  by (simp add: on_signal_def route_signal_def Let_def emit_def roomId_set_data_xrId)

theorem signal_from_passthrough_witness:
  "out (on_signal ''a'' (Some forged_offer) (\<lambda>k. 10) (run init_server [Connection ''a'' net0]))
     = out (run init_server [Connection ''a'' net0])
       @ [Emit (ToRoom ''xr:XR-1238'')
            (Signal (Some ''offer'') (Some ''XR-9999'') (Relayed ''sdp''))]"
proof -
  have t: "s_type forged_offer \<noteq> Some ''webrtc_quality_update''"
    by (simp add: forged_offer_def)
  from signal_from_passthrough [OF t, of "''a''" "\<lambda>k. 10" "run init_server [Connection ''a'' net0]"]
  have "on_signal ''a'' (Some forged_offer) (\<lambda>k. 10) (run init_server [Connection ''a'' net0])
      = (run init_server [Connection ''a'' net0])
          \<lparr>out := out (run init_server [Connection ''a'' net0])
             @ [Emit (ToRoom ''xr:XR-1238'')
                  (Signal (Some ''offer'') (Some ''XR-9999'') (Relayed ''sdp''))]\<rparr>"
    by (simp add: Let_def forged_offer_def truthy_def or_else_def roomOf_def)
  then show ?thesis by simp
qed

text \<open>
  The sentence of the specification does not hold: a connection registered as XR-1234 sends an offer whose
  payload says it is from XR-9999, and that is the \<open>from\<close> the addressee is sent.
\<close>

theorem signal_from_forged:
  "map_option xrId (data_of (run init_server
        [Connection ''a'' net0, Identify ''a'' (Some ''Glass'') (Some ''XR-1234'') 7 net0 net0 net0 net0])
      ''a'') = Some (Some ''XR-1234'')
   \<and> last (out (run init_server
        [Connection ''a'' net0, Identify ''a'' (Some ''Glass'') (Some ''XR-1234'') 7 net0 net0 net0 net0,
         SignalIn ''a'' (Some forged_offer) (\<lambda>k. 10)]))
       = Emit (ToRoom ''xr:XR-1238'') (Signal (Some ''offer'') (Some ''XR-9999'') (Relayed ''sdp''))"
  by (simp add: eval_defs net0_def forged_offer_def)

section \<open>Identity claims\<close>

subsection \<open>Closing a connection\<close>

lemma fold_notify_frame [simp]:
  "sockets (fold (notify_peer_left i x) rs st) = sockets st"
  "rooms (fold (notify_peer_left i x) rs st) = rooms st"
  "sids (fold (notify_peer_left i x) rs st) = sids st"
  "clients (fold (notify_peer_left i x) rs st) = clients st"
  "onlineDevices (fold (notify_peer_left i x) rs st) = onlineDevices st"
  "desktopClients (fold (notify_peer_left i x) rs st) = desktopClients st"
  "telemetryByDevice (fold (notify_peer_left i x) rs st) = telemetryByDevice st"
  by (induction rs arbitrary: st, simp_all add: notify_peer_left_def)+

lemma fold_notify_out:
  "out (fold (notify_peer_left i x) rs st) =
     out st @ map (\<lambda>r. Emit (ToRoomExcept r i) (PeerLeft x r)) (filter is_pair_room rs)"
  by (induction rs arbitrary: st) (simp_all add: notify_peer_left_def)

lemma on_disconnecting_frame [simp]:
  "sockets (on_disconnecting i st) = sockets st"
  "rooms (on_disconnecting i st) = rooms st"
  "sids (on_disconnecting i st) = sids st"
  "clients (on_disconnecting i st) = clients st"
  "onlineDevices (on_disconnecting i st) = onlineDevices st"
  "desktopClients (on_disconnecting i st) = desktopClients st"
  "telemetryByDevice (on_disconnecting i st) = telemetryByDevice st"
  by (simp_all add: on_disconnecting_def split: option.splits)

lemma on_disconnecting_out:
  "out (on_disconnecting i st) = out st @ peer_left_notes st i"
  by (simp add: on_disconnecting_def peer_left_notes_def fold_notify_out split: option.splits)

lemma members_on_disconnecting [simp]:
  "members (on_disconnecting i st) r = members st r"
  "socket_rooms (on_disconnecting i st) j = socket_rooms st j"
  by (simp_all add: members_def socket_rooms_def)

text \<open>What the adapter reports while a socket leaves its rooms.\<close>

lemma fold_adapter_del_out:
  "\<exists>leaves. out (fold (adapter_del i) rs st) = out st @ leaves
      \<and> (\<forall>e \<in> set leaves. \<exists>r. e = LeaveRoom i r)"
proof (induction rs arbitrary: st)
  case Nil
  then show ?case by simp
next
  case (Cons r rs)
  obtain l1 where l1: "out (adapter_del i r st) = out st @ l1"
    "\<forall>e \<in> set l1. \<exists>r. e = LeaveRoom i r"
    by (cases "i \<in> set (members st r)") (simp_all add: adapter_del_def Let_def)
  obtain l2 where l2: "out (fold (adapter_del i) rs (adapter_del i r st))
      = out (adapter_del i r st) @ l2" "\<forall>e \<in> set l2. \<exists>r. e = LeaveRoom i r"
    using Cons [of "adapter_del i r st"] by blast
  show ?case
    using l1 l2 by (intro exI [of _ "l1 @ l2"]) auto
qed

lemma leaveAll_out:
  "\<exists>leaves. out (leaveAll i st) = out st @ leaves \<and> (\<forall>e \<in> set leaves. \<exists>r. e = LeaveRoom i r)"
  using fold_adapter_del_out [of i "socket_rooms st i" st]
  by (simp add: leaveAll_def Let_def)

lemma close_sockets:
  "sockets (close i n st) = filter (\<lambda>t. sock_id t \<noteq> i) (sockets st)"
proof (cases "sock_of st i")
  case None
  then have "\<forall>t \<in> set (sockets st). sock_id t \<noteq> i"
    by (simp add: sock_of_def find_None_iff)
  then show ?thesis using None by (simp add: close_def)
next
  case (Some s)
  then show ?thesis
    by (simp add: close_def Let_def on_disconnect_def broadcastDeviceList_def
        split: option.splits)
qed

lemma data_of_sock_of: "sock_of st i = Some s \<Longrightarrow> data_of st i = Some (data s)"
  by (simp add: data_of_def)

lemma close_registry_other:
  assumes "\<not> registered_as st i x"
  shows "clients (close i n st) x = clients st x"
    and "onlineDevices (close i n st) x = onlineDevices st x"
    and "desktopClients (close i n st) x = desktopClients st x"
  using assms
  by (auto simp add: close_def Let_def on_disconnect_def broadcastDeviceList_def unregister_def
      registered_as_def data_of_def split: option.splits)

lemma close_out:
  assumes "connected st i"
  shows "\<exists>leaves l. out (close i n st) =
           out st @ peer_left_notes st i @ leaves
             @ [Closed i, Emit ToAll (DeviceList l), Schedule 0 BroadcastPairs]
         \<and> (\<forall>e \<in> set leaves. \<exists>r. e = LeaveRoom i r)"
proof -
  obtain s where s: "sock_of st i = Some s"
    using assms by (auto simp add: connected_def)
  obtain leaves where lv: "out (leaveAll i (on_disconnecting i st))
      = out (on_disconnecting i st) @ leaves" "\<forall>e \<in> set leaves. \<exists>r. e = LeaveRoom i r"
    using leaveAll_out by blast
  show ?thesis
    using s lv
    by (auto simp add: close_def Let_def on_disconnect_def broadcastDeviceList_def
        on_disconnecting_out split: option.splits)
qed

lemma set_data_ids [simp]: "map sock_id (sockets (set_data i f st)) = map sock_id (sockets st)"
  by (simp add: set_data_def comp_def cong: map_cong)

lemma connected_iff: "connected st i \<longleftrightarrow> i \<in> set (map sock_id (sockets st))"
  by (auto simp add: connected_def sock_of_def find_None_iff)

lemma connected_set_data [simp]: "connected (set_data i f st) j = connected st j"
  by (simp add: connected_iff del: set_map)

lemma data_of_frame [simp]:
  "data_of (emit t e st) j = data_of st j"
  "data_of (effect y st) j = data_of st j"
  "data_of (join_room i r st) j = data_of st j"
  "data_of (socket_join i r st) j = data_of st j"
  "data_of (register x i st) j = data_of st j"
  "data_of (broadcastPairs st) j = data_of st j"
  "data_of (broadcastDeviceList n st) j = data_of st j"
  "data_of (st\<lparr>desktopClients := dc\<rparr>) j = data_of st j"
  by (simp_all add: data_of_def sock_of_def broadcastPairs_def broadcastDeviceList_def
      socket_join_def)

lemma connected_frame [simp]:
  "connected (emit t e st) j = connected st j"
  "connected (effect y st) j = connected st j"
  "connected (join_room i r st) j = connected st j"
  "connected (socket_join i r st) j = connected st j"
  "connected (register x i st) j = connected st j"
  "connected (broadcastPairs st) j = connected st j"
  "connected (broadcastDeviceList n st) j = connected st j"
  "connected (st\<lparr>desktopClients := dc\<rparr>) j = connected st j"
  by (simp_all add: connected_def sock_of_def broadcastPairs_def broadcastDeviceList_def
      socket_join_def)

lemma registry_frame [simp]:
  "clients (broadcastPairs st) = clients st"
  "onlineDevices (broadcastPairs st) = onlineDevices st"
  "desktopClients (broadcastPairs st) = desktopClients st"
  "clients (broadcastDeviceList n st) = clients st"
  "onlineDevices (broadcastDeviceList n st) = onlineDevices st"
  "desktopClients (broadcastDeviceList n st) = desktopClients st"
  "out (broadcastPairs st) = out st @ [Emit ToAll (RoomUpdate (collectPairs st))]"
  "out (broadcastDeviceList n st) = out st @ [Emit ToAll (DeviceList (buildDeviceListGlobal st n))]"
  by (simp_all add: broadcastPairs_def broadcastDeviceList_def)

text \<open>Automatic pairing touches no registry, ends no connection and changes no identity.\<close>

lemma tryAutoPair_registry [simp]:
  "clients (snd (tryAutoPair x st)) = clients st"
  "onlineDevices (snd (tryAutoPair x st)) = onlineDevices st"
  "desktopClients (snd (tryAutoPair x st)) = desktopClients st"
  by (simp_all add: tryAutoPair_def Let_def split: option.splits)

lemma tryAutoPair_connected [simp]:
  "connected (snd (tryAutoPair x st)) j = connected st j"
  by (simp add: tryAutoPair_def Let_def split: option.splits)

lemma tryAutoPair_xrId [simp]:
  "map_option xrId (data_of (snd (tryAutoPair x st)) j) = map_option xrId (data_of st j)"
  by (cases "data_of st j")
     (simp_all add: tryAutoPair_def Let_def data_of_set_data split: option.splits)

lemma tryAutoPair_out:
  "\<exists>new. out (snd (tryAutoPair x st)) = out st @ new \<and> filter is_rejection new = []"
  by (auto simp add: tryAutoPair_def Let_def is_rejection_def split: option.splits)

text \<open>An accepted claim.\<close>

lemma register_registry [simp]:
  "clients (register x i st) = (clients st)(x \<mapsto> i)"
  "onlineDevices (register x i st) = (onlineDevices st)(x \<mapsto> i)"
  by (simp_all add: register_def)

lemma enter_frame [simp]:
  "clients (enter i dn x now n1 n2 st) = (clients st)(x \<mapsto> i)"
  "onlineDevices (enter i dn x now n1 n2 st) = (onlineDevices st)(x \<mapsto> i)"
  "connected (enter i dn x now n1 n2 st) j = connected st j"
  by (simp_all add: enter_def Let_def)

lemma enter_data:
  "data_of (enter i dn x now n1 n2 st) j =
     map_option (\<lambda>d. if j = i then d\<lparr>deviceName := Some (name_or_unknown dn), xrId := Some x,
                                      connectedAt := Some now\<rparr> else d) (data_of st j)"
  by (simp add: enter_def Let_def data_of_set_data)

lemma enter_out:
  "\<exists>l1 l2. out (enter i dn x now n1 n2 st) =
     out st @ [Emit (ToSocket i) (DeviceList l1), Emit ToAll (DeviceList l2)]"
  by (simp add: enter_def Let_def)

lemma accept_registry:
  "clients (accept i dn x now n1 n2 st) x = Some i"
  "onlineDevices (accept i dn x now n1 n2 st) x = Some i"
  by (simp_all add: accept_def Let_def)

lemma accept_connected: "connected (accept i dn x now n1 n2 st) j = connected st j"
  by (simp add: accept_def Let_def)

lemma accept_xrId:
  assumes "connected st i"
  shows "map_option xrId (data_of (accept i dn x now n1 n2 st) i) = Some (Some x)"
proof -
  obtain d where "data_of st i = Some d"
    using assms by (auto simp add: connected_def data_of_def)
  then have e: "map_option xrId (data_of (enter i dn x now n1 n2 st) i) = Some (Some x)"
    by (simp add: enter_data)
  show ?thesis
  proof (cases "has_room (enter i dn x now n1 n2 st) i")
    case True
    then show ?thesis using e by (simp only: accept_def Let_def if_True)
  next
    case False
    then show ?thesis using e by (simp only: accept_def Let_def if_False tryAutoPair_xrId)
  qed
qed

lemma accept_out:
  "\<exists>new. out (accept i dn x now n1 n2 st) = out st @ new \<and> filter is_rejection new = []"
proof -
  obtain l1 l2 where e: "out (enter i dn x now n1 n2 st) =
     out st @ [Emit (ToSocket i) (DeviceList l1), Emit ToAll (DeviceList l2)]"
    using enter_out by blast
  obtain l3 where t: "out (snd (tryAutoPair x (enter i dn x now n1 n2 st)))
      = out (enter i dn x now n1 n2 st) @ l3" "filter is_rejection l3 = []"
    using tryAutoPair_out by blast
  show ?thesis
  proof (cases "has_room (enter i dn x now n1 n2 st) i")
    case True
    then show ?thesis using e by (simp add: accept_def is_rejection_def)
  next
    case False
    then show ?thesis
      using e t
      by (intro exI [of _ "[Emit (ToSocket i) (DeviceList l1), Emit ToAll (DeviceList l2)] @ l3"])
         (simp add: accept_def is_rejection_def)
  qed
qed

lemma safeFetchSockets_fallback:
  "fanout n \<noteq> Completed \<Longrightarrow> safeFetchSockets st n = sockets st"
  by (cases "fanout n") (simp_all add: safeFetchSockets_def Let_def)

lemma on_identify_accept:
  "x \<noteq> [] \<Longrightarrow> find_holder (safeFetchSockets st ng) i x = None \<Longrightarrow>
     on_identify i dn (Some x) now ng n1 n2 nc st = accept i dn x now n1 n2 st"
  by (simp add: on_identify_def truthy_def)

lemma on_identify_reject:
  "x \<noteq> [] \<Longrightarrow> find_holder (safeFetchSockets st ng) i x = Some h \<Longrightarrow>
     on_identify i dn (Some x) now ng n1 n2 nc st = reject_duplicate i x h nc st"
  by (simp add: on_identify_def truthy_def)

text \<open>
  C4.  When the fan-out does not complete (the guard timer fires first, or the fan-out
  fails), the snapshot is exactly the local sockets.  An identity claim made on that view
  by a connected socket, for an identity that no other local socket holds, is accepted:
  the claimant is registered under the identity and stays connected, and nothing is
  emitted to turn it away, whatever connections the other processes hold.
\<close>

theorem timeout_falls_back_to_local:
  assumes "fanout ng \<noteq> Completed" and "connected st i" and "x \<noteq> []"
    and "find_holder (sockets st) i x = None"
  shows "safeFetchSockets st ng = sockets st
       \<and> (let st' = on_identify i dn (Some x) now ng n1 n2 nc st in
            clients st' x = Some i \<and> onlineDevices st' x = Some i \<and> connected st' i
          \<and> map_option xrId (data_of st' i) = Some (Some x)
          \<and> (\<exists>new. out st' = out st @ new \<and> filter is_rejection new = []))"
proof -
  have f: "safeFetchSockets st ng = sockets st"
    using assms(1) by (rule safeFetchSockets_fallback)
  then have "on_identify i dn (Some x) now ng n1 n2 nc st = accept i dn x now n1 n2 st"
    using assms(3,4) by (simp add: on_identify_accept)
  then show ?thesis
    using f assms(2) accept_out [of i dn x now n1 n2 st]
      accept_xrId [OF assms(2), of dn x now n1 n2]
    by (simp add: Let_def accept_registry accept_connected)
qed

theorem timeout_falls_back_to_local_witness:
  "safeFetchSockets (run init_server [Connection ''c'' net0]) net_timeout
     = sockets (run init_server [Connection ''c'' net0])
   \<and> find_holder (remote net_timeout) ''c'' ''XR-1234'' = Some remote_holder
   \<and> clients (on_identify ''c'' (Some ''Glass2'') (Some ''XR-1234'') 9 net_timeout net0 net0 net0
         (run init_server [Connection ''c'' net0])) ''XR-1234'' = Some ''c''
   \<and> connected (on_identify ''c'' (Some ''Glass2'') (Some ''XR-1234'') 9 net_timeout net0 net0 net0
         (run init_server [Connection ''c'' net0])) ''c''"
proof -
  let ?st = "run init_server [Connection ''c'' net0]"
  have a: "fanout net_timeout \<noteq> Completed" by (simp add: net_timeout_def)
  have b: "connected ?st ''c''" by (simp add: eval_defs net0_def)
  have c: "''XR-1234'' \<noteq> []" by simp
  have d: "find_holder (sockets ?st) ''c'' ''XR-1234'' = None"
    by (simp add: eval_defs net0_def)
  have e: "find_holder (remote net_timeout) ''c'' ''XR-1234'' = Some remote_holder"
    by (simp add: find_holder_def net_timeout_def remote_holder_def)
  from timeout_falls_back_to_local [OF a b c d, of "Some ''Glass2''" 9 net0 net0 net0]
  show ?thesis
    using e by (simp add: Let_def)
qed

lemma find_holder_Some:
  "find_holder all i x = Some h \<Longrightarrow> sock_id h \<noteq> i \<and> xrId (data h) = Some x \<and> h \<in> set all"
  by (auto simp add: find_holder_def find_Some_iff in_set_conv_nth)

lemma socket_rooms_frame [simp]:
  "socket_rooms (emit t e st) i = socket_rooms st i"
  "socket_rooms (effect y st) i = socket_rooms st i"
  by (simp_all add: socket_rooms_def)

lemma notes_frame [simp]:
  "peer_left_notes (emit t e st) i = peer_left_notes st i"
  "peer_left_notes (effect y st) i = peer_left_notes st i"
  "registered_as (emit t e st) i x = registered_as st i x"
  "registered_as (effect y st) i x = registered_as st i x"
  by (simp_all add: peer_left_notes_def registered_as_def split: option.splits)

text \<open>
  C1, as the code has it.  When the snapshot the duplicate guard obtains (cluster-wide
  when the fan-out completes, local otherwise) shows another connection holding the
  claimed identity, the claimant is sent \<open>duplicate_id\<close> with the identity and that
  holder's info, after an empty device list went out to everyone, and is disconnected.
  No other connection is ended or changed, and for a claimant that is not itself
  registered under the identity the registry entries of the identity stay as they were.
\<close>

theorem duplicate_claim_rejected:
  assumes "connected st i" and "x \<noteq> []"
    and "find_holder (safeFetchSockets st ng) i x = Some h"
  shows "let st' = on_identify i dn (Some x) now ng n1 n2 nc st in
           sock_id h \<noteq> i \<and> xrId (data h) = Some x
         \<and> (\<exists>leaves l.
               out st' = out st
                 @ [Emit ToAll (DeviceList []), Schedule 1200 RebroadcastDeviceList,
                    Emit (ToSocket i) (DuplicateId x (holderInfo x h))]
                 @ peer_left_notes st i @ leaves
                 @ [Closed i, Emit ToAll (DeviceList l), Schedule 0 BroadcastPairs]
             \<and> (\<forall>e \<in> set leaves. \<exists>r. e = LeaveRoom i r))
         \<and> \<not> connected st' i
         \<and> sockets st' = filter (\<lambda>t. sock_id t \<noteq> i) (sockets st)
         \<and> (\<not> registered_as st i x \<longrightarrow>
               clients st' x = clients st x \<and> onlineDevices st' x = onlineDevices st x
             \<and> desktopClients st' x = desktopClients st x)"
proof -
  define st3 where "st3 = emit (ToSocket i) (DuplicateId x (holderInfo x h))
     (effect (Schedule 1200 RebroadcastDeviceList) (broadcastEmptyDeviceListOnce st))"
  have r: "on_identify i dn (Some x) now ng n1 n2 nc st = close i nc st3"
    using assms(2,3) by (simp add: on_identify_reject reject_duplicate_def Let_def st3_def)
  have o3: "out st3 = out st @ [Emit ToAll (DeviceList []), Schedule 1200 RebroadcastDeviceList,
      Emit (ToSocket i) (DuplicateId x (holderInfo x h))]"
    by (simp add: st3_def broadcastEmptyDeviceListOnce_def)
  have f3: "sockets st3 = sockets st" "clients st3 = clients st"
    "onlineDevices st3 = onlineDevices st" "desktopClients st3 = desktopClients st"
    "peer_left_notes st3 i = peer_left_notes st i" "registered_as st3 i x = registered_as st i x"
    "connected st3 i"
    using assms(1) by (simp_all add: st3_def broadcastEmptyDeviceListOnce_def)
  obtain leaves l where cl: "out (close i nc st3) =
      out st3 @ peer_left_notes st3 i @ leaves
        @ [Closed i, Emit ToAll (DeviceList l), Schedule 0 BroadcastPairs]"
      "\<forall>e \<in> set leaves. \<exists>r. e = LeaveRoom i r"
    using close_out [OF f3(7), of nc] by blast
  have s: "sockets (close i nc st3) = filter (\<lambda>t. sock_id t \<noteq> i) (sockets st)"
    by (simp add: close_sockets f3)
  then have nc: "\<not> connected (close i nc st3) i"
    by (auto simp add: connected_iff)
  have reg: "\<not> registered_as st i x \<Longrightarrow>
      clients (close i nc st3) x = clients st x
    \<and> onlineDevices (close i nc st3) x = onlineDevices st x
    \<and> desktopClients (close i nc st3) x = desktopClients st x"
    using close_registry_other [of st3 i x nc] by (simp add: f3)
  have "\<exists>leaves l.
       out (close i nc st3) = out st
         @ [Emit ToAll (DeviceList []), Schedule 1200 RebroadcastDeviceList,
            Emit (ToSocket i) (DuplicateId x (holderInfo x h))]
         @ peer_left_notes st i @ leaves
         @ [Closed i, Emit ToAll (DeviceList l), Schedule 0 BroadcastPairs]
     \<and> (\<forall>e \<in> set leaves. \<exists>r. e = LeaveRoom i r)"
    using cl by (intro exI [of _ leaves] exI [of _ l]) (simp add: o3 f3)
  then show ?thesis
    using find_holder_Some [OF assms(3)] s nc reg
    unfolding Let_def r by blast
qed


theorem duplicate_claim_rejected_witness:
  "find_holder (safeFetchSockets (run init_server holder_then_claimant) net0) ''c'' ''XR-1234''
     = Some local_holder
   \<and> sockets (on_identify ''c'' (Some ''Glass2'') (Some ''XR-1234'') 9 net0 net0 net0 net0
        (run init_server holder_then_claimant)) = [local_holder]
   \<and> clients (on_identify ''c'' (Some ''Glass2'') (Some ''XR-1234'') 9 net0 net0 net0 net0
        (run init_server holder_then_claimant)) ''XR-1234'' = Some ''h''
   \<and> \<not> connected (on_identify ''c'' (Some ''Glass2'') (Some ''XR-1234'') 9 net0 net0 net0 net0
        (run init_server holder_then_claimant)) ''c''"
proof -
  let ?st = "run init_server holder_then_claimant"
  have a: "connected ?st ''c''"
    by (simp add: eval_defs net0_def holder_then_claimant_def)
  have b: "''XR-1234'' \<noteq> []" by simp
  have c: "find_holder (safeFetchSockets ?st net0) ''c'' ''XR-1234'' = Some local_holder"
    by (simp add: eval_defs net0_def holder_then_claimant_def local_holder_def)
  have d: "\<not> registered_as ?st ''c'' ''XR-1234''"
    by (simp add: eval_defs net0_def holder_then_claimant_def)
  have e: "sockets ?st = [local_holder, \<lparr>sock_id = ''c'', data = no_data\<rparr>]"
    by (simp add: eval_defs net0_def holder_then_claimant_def local_holder_def)
  have f: "clients ?st ''XR-1234'' = Some ''h''"
    by (simp add: eval_defs net0_def holder_then_claimant_def)
  from duplicate_claim_rejected [OF a b c, of "Some ''Glass2''" 9 net0 net0 net0]
  show ?thesis
    using c d by (simp add: Let_def e f local_holder_def)
qed

text \<open>
  The sentence of the specification is too strong: a connection on another process holds XR-1234, the guard
  timer fires before the fan-out answers, and the second claim is accepted on the local
  view; nothing is emitted to turn the claimant away.
\<close>

theorem duplicate_claim_missed_on_timeout:
  "find_holder (remote net_timeout) ''c'' ''XR-1234'' = Some remote_holder
   \<and> clients (run init_server
        [Connection ''c'' net0,
         Identify ''c'' (Some ''Glass2'') (Some ''XR-1234'') 9 net_timeout net0 net0 net0])
        ''XR-1234'' = Some ''c''
   \<and> connected (run init_server
        [Connection ''c'' net0,
         Identify ''c'' (Some ''Glass2'') (Some ''XR-1234'') 9 net_timeout net0 net0 net0]) ''c''
   \<and> filter is_rejection (out (run init_server
        [Connection ''c'' net0,
         Identify ''c'' (Some ''Glass2'') (Some ''XR-1234'') 9 net_timeout net0 net0 net0])) = []"
  by (simp add: eval_defs net0_def net_timeout_def remote_holder_def)

section \<open>Peer notification on disconnect\<close>

lemma map_of_room_del_other: "r' \<noteq> r \<Longrightarrow> map_of (room_del r' i m) r = map_of m r"
  by (induction m) auto

lemma members_adapter_del_other:
  "r' \<noteq> r \<Longrightarrow> members (adapter_del i r' st) r = members st r"
  by (simp add: members_def adapter_del_def Let_def effect_def map_of_room_del_other)

lemma fold_adapter_del_reports:
  "r \<in> set rs \<Longrightarrow> i \<in> set (members st r) \<Longrightarrow>
     \<exists>leaves. out (fold (adapter_del i) rs st) = out st @ leaves \<and> LeaveRoom i r \<in> set leaves"
proof (induction rs arbitrary: st)
  case Nil
  then show ?case by simp
next
  case (Cons r' rs)
  show ?case
  proof (cases "r' = r")
    case True
    obtain l where "out (fold (adapter_del i) rs (adapter_del i r st))
        = out (adapter_del i r st) @ l"
      using fold_adapter_del_out by blast
    moreover have "out (adapter_del i r st) = out st @ [LeaveRoom i r]"
      using Cons.prems(2) by (simp add: adapter_del_def Let_def)
    ultimately show ?thesis
      using True by (intro exI [of _ "LeaveRoom i r # l"]) simp
  next
    case False
    then have "r \<in> set rs" "i \<in> set (members (adapter_del i r' st) r)"
      using Cons.prems by (simp_all add: members_adapter_del_other)
    from Cons.IH [OF this] obtain l where l:
      "out (fold (adapter_del i) rs (adapter_del i r' st)) = out (adapter_del i r' st) @ l"
      "LeaveRoom i r \<in> set l"
      by blast
    obtain l' where "out (adapter_del i r' st) = out st @ l'"
      by (cases "i \<in> set (members st r')") (simp_all add: adapter_del_def Let_def)
    then show ?thesis
      using l by (intro exI [of _ "l' @ l"]) simp
  qed
qed

lemma leaveAll_reports:
  "r \<in> set (socket_rooms st i) \<Longrightarrow> i \<in> set (members st r) \<Longrightarrow>
     \<exists>leaves. out (leaveAll i st) = out st @ leaves \<and> LeaveRoom i r \<in> set leaves"
  using fold_adapter_del_reports [of r "socket_rooms st i" i st]
  by (simp add: leaveAll_def Let_def)

lemma close_trace:
  assumes "connected st i"
    and "r \<in> set (socket_rooms st i)" and "i \<in> set (members st r)"
  shows "\<exists>rest. out (close i n st) = out st @ peer_left_notes st i @ rest
           \<and> LeaveRoom i r \<in> set rest"
proof -
  obtain s where s: "sock_of st i = Some s"
    using assms(1) by (auto simp add: connected_def)
  obtain leaves where lv:
    "out (leaveAll i (on_disconnecting i st)) = out (on_disconnecting i st) @ leaves"
    "LeaveRoom i r \<in> set leaves"
    using leaveAll_reports [of r "on_disconnecting i st" i] assms(2,3) by auto
  show ?thesis
    using s lv
    by (auto simp add: close_def Let_def on_disconnect_def broadcastDeviceList_def
        on_disconnecting_out split: option.splits)
qed

subsection \<open>The two maps of the adapter agree\<close>

lemma map_of_set_add:
  "map_of (set_add k v m) k' =
     (if k' = k
      then Some (case map_of m k of None \<Rightarrow> [v] | Some vs \<Rightarrow> if v \<in> set vs then vs else vs @ [v])
      else map_of m k')"
  by (induction m) auto

lemma keys_set_add:
  "map fst (set_add k v m) = (if k \<in> fst ` set m then map fst m else map fst m @ [k])"
  by (induction m) (force simp add: image_iff)+

lemma distinct_set_add: "distinct (map fst m) \<Longrightarrow> distinct (map fst (set_add k v m))"
  by (simp add: keys_set_add)

lemma keys_room_del: "fst ` set (room_del r i m) \<subseteq> fst ` set m"
proof (induction m)
  case Nil
  then show ?case by simp
next
  case (Cons e m)
  obtain k' vs where e: "e = (k', vs)" by (cases e)
  show ?case using Cons by (auto simp add: e)
qed

lemma distinct_room_del: "distinct (map fst m) \<Longrightarrow> distinct (map fst (room_del r i m))"
proof (induction m)
  case Nil
  then show ?case by simp
next
  case (Cons e m)
  obtain k' vs where e: "e = (k', vs)" by (cases e)
  show ?case
    using Cons keys_room_del [of r i m] by (auto simp add: e)
qed

lemma map_of_room_del_same:
  "distinct (map fst m) \<Longrightarrow>
     map_of (room_del r i m) r =
       (case map_of m r of
          None \<Rightarrow> None
        | Some ms \<Rightarrow> if removeAll i ms = [] then None else Some (removeAll i ms))"
proof (induction m)
  case Nil
  then show ?case by simp
next
  case (Cons e m)
  obtain k' vs where e: "e = (k', vs)" by (cases e)
  show ?case
  proof (cases "k' = r")
    case True
    then have "map_of m r = None"
      using Cons.prems by (simp add: e map_of_eq_None_iff)
    then show ?thesis using True by (simp add: e)
  next
    case False
    then show ?thesis using Cons by (simp add: e)
  qed
qed

lemma members_join_room:
  "members (join_room i r st) r' =
     (if r' = r then (if i \<in> set (members st r) then members st r else members st r @ [i])
      else members st r')"
  by (auto simp add: members_def join_room_def map_of_set_add split: option.splits)

lemma socket_rooms_join_room:
  "socket_rooms (join_room i r st) j =
     (if j = i then (if r \<in> set (socket_rooms st i) then socket_rooms st i
                     else socket_rooms st i @ [r])
      else socket_rooms st j)"
  by (auto simp add: socket_rooms_def join_room_def map_of_set_add split: option.splits)

lemma adapter_ok_join_room: "adapter_ok st \<Longrightarrow> adapter_ok (join_room i r st)"
  unfolding adapter_ok_def
  by (auto simp add: members_join_room socket_rooms_join_room)
     (simp_all add: join_room_def distinct_set_add)

lemma members_adapter_del:
  "distinct (map fst (rooms st)) \<Longrightarrow>
     members (adapter_del i r st) r' =
       (if r' = r then removeAll i (members st r) else members st r')"
  by (auto simp add: members_def adapter_del_def Let_def effect_def map_of_room_del_same
      map_of_room_del_other split: option.splits)

lemma adapter_del_keeps:
  "distinct (map fst (rooms st)) \<Longrightarrow> distinct (map fst (rooms (adapter_del i r st)))"
  by (simp add: adapter_del_def Let_def effect_def distinct_room_del)

lemma fold_adapter_del_members:
  "distinct (map fst (rooms st)) \<Longrightarrow>
     distinct (map fst (rooms (fold (adapter_del i) rs st)))
     \<and> (\<forall>r. members (fold (adapter_del i) rs st) r =
            (if r \<in> set rs then removeAll i (members st r) else members st r))"
proof (induction rs arbitrary: st)
  case Nil
  then show ?case by simp
next
  case (Cons r' rs)
  have d: "distinct (map fst (rooms (adapter_del i r' st)))"
    using Cons.prems by (rule adapter_del_keeps)
  show ?case
    using Cons.IH [OF d] Cons.prems by (auto simp add: members_adapter_del)
qed

lemma socket_rooms_sids:
  "sids st' = sids st \<Longrightarrow> socket_rooms st' j = socket_rooms st j"
  by (simp add: socket_rooms_def)

lemma map_of_filter_key:
  "j \<noteq> i \<Longrightarrow> map_of (filter (\<lambda>(k, _). k \<noteq> i) m) j = map_of m j"
  by (induction m) auto

lemma leaveAll_members:
  assumes "distinct (map fst (rooms st))"
  shows "members (leaveAll i st) r =
     (if r \<in> set (socket_rooms st i) then removeAll i (members st r) else members st r)"
    and "distinct (map fst (rooms (leaveAll i st)))"
  using fold_adapter_del_members [OF assms, of i "socket_rooms st i"]
  by (simp_all add: leaveAll_def Let_def members_def)

lemma leaveAll_socket_rooms:
  "j \<noteq> i \<Longrightarrow> socket_rooms (leaveAll i st) j = socket_rooms st j"
  by (simp add: leaveAll_def Let_def socket_rooms_def map_of_filter_key)

lemma adapter_ok_leaveAll:
  assumes "adapter_ok st"
  shows "adapter_ok (leaveAll i st)"
proof -
  have d: "distinct (map fst (rooms st))"
    and m: "\<And>j r. j \<in> set (members st r) \<Longrightarrow> r \<in> set (socket_rooms st j)"
    using assms by (auto simp add: adapter_ok_def)
  have "r \<in> set (socket_rooms (leaveAll i st) j)" if "j \<in> set (members (leaveAll i st) r)" for j r
  proof (cases "j = i")
    case True
    then show ?thesis
      using that m [of i r] by (auto simp add: leaveAll_members [OF d] split: if_splits)
  next
    case False
    then show ?thesis
      using that m [of j r]
      by (auto simp add: leaveAll_members [OF d] leaveAll_socket_rooms split: if_splits)
  qed
  then show ?thesis
    using leaveAll_members(2) [OF d] by (auto simp add: adapter_ok_def)
qed


lemma adapter_ok_cong:
  "rooms st' = rooms st \<Longrightarrow> sids st' = sids st \<Longrightarrow> adapter_ok st' = adapter_ok st"
  by (simp add: adapter_ok_def members_def socket_rooms_def)

lemma adapter_ok_basic [simp]:
  "adapter_ok (emit t e st) = adapter_ok st"
  "adapter_ok (effect y st) = adapter_ok st"
  "adapter_ok (set_data i f st) = adapter_ok st"
  "adapter_ok (register x i st) = adapter_ok st"
  "adapter_ok (unregister x i st) = adapter_ok st"
  "adapter_ok (broadcastPairs st) = adapter_ok st"
  "adapter_ok (broadcastDeviceList n st) = adapter_ok st"
  "adapter_ok (broadcastEmptyDeviceListOnce st) = adapter_ok st"
  "adapter_ok (on_disconnecting i st) = adapter_ok st"
  "adapter_ok (on_disconnect d i n st) = adapter_ok st"
  "adapter_ok (st\<lparr>sockets := ss\<rparr>) = adapter_ok st"
  "adapter_ok (st\<lparr>desktopClients := dc\<rparr>) = adapter_ok st"
  by (rule adapter_ok_cong;
      simp add: broadcastPairs_def broadcastDeviceList_def broadcastEmptyDeviceListOnce_def
        on_disconnect_def Let_def split: option.splits)+

lemma map_of_map_key:
  "map_of (map (\<lambda>(j, rs). if j = i then (j, f rs) else (j, rs)) m) k =
     map_option (\<lambda>rs. if k = i then f rs else rs) (map_of m k)"
  by (induction m) auto

lemma adapter_ok_leave_room:
  assumes "adapter_ok st"
  shows "adapter_ok (leave_room i r st)"
proof -
  define st1 where
    "st1 = st\<lparr>sids := map (\<lambda>(j, rs). if j = i then (j, removeAll r rs) else (j, rs)) (sids st)\<rparr>"
  have d: "distinct (map fst (rooms st1))"
    using assms by (simp add: st1_def adapter_ok_def)
  have m1: "members st1 r' = members st r'" for r'
    by (simp add: st1_def members_def)
  have s1: "socket_rooms (adapter_del i r st1) j =
      (if j = i then removeAll r (socket_rooms st i) else socket_rooms st j)" for j
    by (cases "map_of (sids st) j")
       (auto simp add: socket_rooms_def st1_def map_of_map_key)
  have "r' \<in> set (socket_rooms (adapter_del i r st1) j)"
    if "j \<in> set (members (adapter_del i r st1) r')" for j r'
    using that assms
    by (auto simp add: members_adapter_del [OF d] m1 s1 adapter_ok_def split: if_splits)
  then show ?thesis
    using adapter_del_keeps [OF d, of i r]
    by (auto simp add: adapter_ok_def leave_room_def st1_def)
qed

lemma adapter_ok_socket_join: "adapter_ok st \<Longrightarrow> adapter_ok (socket_join i r st)"
  by (simp add: socket_join_def adapter_ok_join_room)

lemma adapter_ok_tryAutoPair: "adapter_ok st \<Longrightarrow> adapter_ok (snd (tryAutoPair x st))"
  by (simp add: tryAutoPair_def Let_def adapter_ok_socket_join split: option.splits)

lemma adapter_ok_close: "adapter_ok st \<Longrightarrow> adapter_ok (close i n st)"
  by (simp add: close_def Let_def adapter_ok_leaveAll split: option.splits)

lemma adapter_ok_on_connection: "adapter_ok st \<Longrightarrow> adapter_ok (on_connection i n st)"
  by (simp add: on_connection_def Let_def adapter_ok_join_room)

lemma adapter_ok_on_join: "adapter_ok st \<Longrightarrow> adapter_ok (on_join i x n1 n2 st)"
  by (simp add: on_join_def Let_def adapter_ok_join_room)

lemma adapter_ok_on_identify:
  "adapter_ok st \<Longrightarrow> adapter_ok (on_identify i dn xid now ng n1 n2 nc st)"
  by (simp add: on_identify_def accept_def enter_def reject_duplicate_def Let_def
      adapter_ok_join_room adapter_ok_tryAutoPair adapter_ok_close split: option.splits)

lemma adapter_ok_on_pair_with: "adapter_ok st \<Longrightarrow> adapter_ok (on_pair_with i p st)"
  by (simp add: on_pair_with_def Let_def adapter_ok_join_room)

lemma adapter_ok_on_signal: "adapter_ok st \<Longrightarrow> adapter_ok (on_signal i p clock st)"
  by (auto simp add: on_signal_def quality_feed_def route_signal_def Let_def adapter_ok_def
      members_def socket_rooms_def split: option.splits prod.splits)

lemma adapter_ok_on_message:
  "adapter_ok st \<Longrightarrow> adapter_ok (on_message i p stamp now stamp' st)"
  by (auto simp add: on_message_def addToMessageHistory_def Let_def adapter_ok_def
      members_def socket_rooms_def split: option.splits)

lemma adapter_ok_on_telemetry:
  "adapter_ok st \<Longrightarrow> adapter_ok (on_telemetry i p t_rec t_push st)"
  by (auto simp add: on_telemetry_def Let_def adapter_ok_def members_def socket_rooms_def
      split: option.splits)

lemma adapter_ok_metrics_in:
  "adapter_ok st \<Longrightarrow> adapter_ok (on_desktop_telemetry d t_rec t_push st)"
  "adapter_ok st \<Longrightarrow> adapter_ok (on_webrtc_quality i q t_snap t_push st)"
  "adapter_ok st \<Longrightarrow> adapter_ok (on_message_history i st)"
  by (auto simp add: on_desktop_telemetry_def on_webrtc_quality_def on_message_history_def
      Let_def adapter_ok_def members_def socket_rooms_def split: option.splits)

lemma adapter_ok_misc:
  "adapter_ok st \<Longrightarrow> adapter_ok (on_metrics_subscribe i x st)"
  "adapter_ok st \<Longrightarrow> adapter_ok (on_metrics_unsubscribe i x st)"
  "adapter_ok st \<Longrightarrow> adapter_ok (on_request_device_list i n st)"
  "adapter_ok st \<Longrightarrow> adapter_ok (run_task t n st)"
  by (simp_all add: on_metrics_subscribe_def on_metrics_unsubscribe_def
      on_request_device_list_def run_task_def adapter_ok_join_room adapter_ok_leave_room
      Let_def split: task.splits)

lemma adapter_ok_step: "adapter_ok st \<Longrightarrow> adapter_ok (step st inp)"
  by (cases inp)
     (simp_all add: adapter_ok_close adapter_ok_on_connection adapter_ok_on_join
        adapter_ok_on_identify adapter_ok_on_pair_with adapter_ok_on_signal
        adapter_ok_on_message adapter_ok_on_telemetry adapter_ok_metrics_in adapter_ok_misc)

lemma adapter_ok_run: "adapter_ok (run init_server ins)"
proof -
  have "adapter_ok st \<Longrightarrow> adapter_ok (run st ins)" for st
    unfolding run_def by (induction ins arbitrary: st) (simp_all add: adapter_ok_step)
  moreover have "adapter_ok init_server"
    by (simp add: adapter_ok_def init_server_def members_def)
  ultimately show ?thesis by blast
qed


text \<open>
  C3, as the code has it.  In every state the server reaches from its start: when a
  connection that carries an identity and is a member of a pair room closes, the effects
  of the close begin with the \<open>peer_left\<close> emits, one
  per pair room of the socket, each carrying the socket's identity and the room; the
  emit for a room goes to everyone else in it, the peer included, and is made while the
  socket is still a member; the adapter takes the socket out of the room only after all
  these emits.
\<close>

theorem peer_left_before_leave:
  assumes "st = run init_server ins"
    and "data_of st i = Some d" and "xrId d = Some x" and "x \<noteq> []"
    and "is_pair_room r" and "i \<in> set (members st r)"
    and "p \<in> set (members st r)" and "p \<noteq> i"
  shows "\<exists>rest. out (close i n st) = out st @ peer_left_notes st i @ rest
           \<and> Emit (ToRoomExcept r i) (PeerLeft x r) \<in> set (peer_left_notes st i)
           \<and> (\<forall>e \<in> set (peer_left_notes st i). \<exists>r'. e = Emit (ToRoomExcept r' i) (PeerLeft x r'))
           \<and> LeaveRoom i r \<in> set rest
           \<and> p \<in> set (recipients (on_disconnecting i st) (ToRoomExcept r i))
           \<and> i \<in> set (members (on_disconnecting i st) r)"
proof -
  have "adapter_ok st"
    unfolding assms(1) by (rule adapter_ok_run)
  then have sr: "r \<in> set (socket_rooms st i)"
    using assms(6) by (simp add: adapter_ok_def)
  have c: "connected st i"
    using assms(2) by (auto simp add: connected_def data_of_def)
  have n: "peer_left_notes st i =
      map (\<lambda>r. Emit (ToRoomExcept r i) (PeerLeft x r)) (filter is_pair_room (socket_rooms st i))"
    using assms(2,3,4) by (simp add: peer_left_notes_def)
  have a: "Emit (ToRoomExcept r i) (PeerLeft x r) \<in> set (peer_left_notes st i)"
    using assms(5) sr by (simp add: n)
  have b: "\<forall>e \<in> set (peer_left_notes st i). \<exists>r'. e = Emit (ToRoomExcept r' i) (PeerLeft x r')"
    by (auto simp add: n)
  have p: "p \<in> set (recipients (on_disconnecting i st) (ToRoomExcept r i))"
    using assms(7,8) by (simp add: recipients_def)
  show ?thesis
    using close_trace [OF c sr assms(6), of n] a b p assms(6) by auto
qed

theorem peer_left_before_leave_witness:
  "\<exists>rest. out (close ''a'' net0 (run init_server paired_run)) =
       out (run init_server paired_run)
       @ [Emit (ToRoomExcept ''pair:XR-1234:XR-1238'' ''a'')
            (PeerLeft ''XR-1234'' ''pair:XR-1234:XR-1238'')]
       @ rest
     \<and> LeaveRoom ''a'' ''pair:XR-1234:XR-1238'' \<in> set rest
     \<and> ''b'' \<in> set (recipients (on_disconnecting ''a'' (run init_server paired_run))
          (ToRoomExcept ''pair:XR-1234:XR-1238'' ''a''))"
proof -
  let ?st = "run init_server paired_run"
  let ?r = "''pair:XR-1234:XR-1238''"
  have d: "data_of ?st ''a'' = Some \<lparr>xrId = Some ''XR-1234'', deviceName = Some ''Glass'',
      connectedAt = Some 3, roomId = Some ?r\<rparr>"
    by (simp add: eval_defs net0_def paired_run_def)
  have sr: "socket_rooms ?st ''a'' = [''a'', ''xr:XR-1234'', ?r]"
    by (simp add: eval_defs net0_def paired_run_def)
  have m: "members ?st ?r = [''b'', ''a'']"
    by (simp add: eval_defs net0_def paired_run_def)
  have pr: "is_pair_room ?r" "\<not> is_pair_room ''a''" "\<not> is_pair_room ''xr:XR-1234''"
    by (simp_all add: is_pair_room_def)
  have n: "peer_left_notes ?st ''a'' = [Emit (ToRoomExcept ?r ''a'') (PeerLeft ''XR-1234'' ?r)]"
    by (simp add: peer_left_notes_def d sr pr)
  from peer_left_before_leave [OF refl d _ _ pr(1), of "''XR-1234''" "''b''" net0]
  show ?thesis
    by (simp add: m n)
qed


text \<open>
  The sentence of the specification is too strong for a room member whose identity was cleared: after a
  \<open>join\<close> with an empty id the handler returns at its guard, and the socket leaves the
  pair room without any \<open>peer_left\<close>.
\<close>

theorem peer_left_skipped_without_identity:
  "members (run init_server (paired_run @ [Join ''a'' [] net0 net0])) ''pair:XR-1234:XR-1238''
     = [''b'', ''a'']
   \<and> filter is_peer_left
        (out (run init_server (paired_run @ [Join ''a'' [] net0 net0, Close ''a'' net0]))) = []
   \<and> LeaveRoom ''a'' ''pair:XR-1234:XR-1238''
        \<in> set (out (run init_server (paired_run @ [Join ''a'' [] net0 net0, Close ''a'' net0])))"
  by (simp add: eval_defs net0_def paired_run_def)

section \<open>Where the code departs from the specification\<close>

text \<open>
  Automatic pairing does respect the capacity of a room: when the room of the pair
  already has two members it returns without joining or emitting.
\<close>

lemma tryAutoPair_full:
  assumes "map_of PAIRINGS_MAP x = Some p"
    and "2 \<le> length (members st (getRoomIdForPair x p))"
  shows "tryAutoPair x st = (False, st)"
  using assms by (simp add: tryAutoPair_def Let_def split: option.splits)

lemma tryAutoPair_full_example:
  "tryAutoPair ''XR-1234'' (run init_server paired_run) = (False, run init_server paired_run)"
proof -
  have "map_of PAIRINGS_MAP ''XR-1234'' = Some ''XR-1238''"
    by (simp add: PAIRINGS_MAP_def)
  moreover have "2 \<le> length (members (run init_server paired_run)
      (getRoomIdForPair ''XR-1234'' ''XR-1238''))"
    by (simp add: eval_defs net0_def paired_run_def)
  ultimately show ?thesis by (rule tryAutoPair_full)
qed

text \<open>
  A registry entry that outlived its connection does not make a room member: the partner
  that identifies later is alone in the pair room.
\<close>

lemma tryAutoPair_stale_partner:
  "clients (run init_server stale_partner) ''XR-1234'' = Some ''s1''
   \<and> \<not> connected (run init_server stale_partner) ''s1''
   \<and> members (run init_server stale_partner) ''pair:XR-1234:XR-1238'' = [''s2'']
   \<and> map fst (sids (run init_server stale_partner)) = [''s2'']"
  by (simp add: eval_defs net0_def stale_partner_def)

text \<open>
  C2 fails on \<open>pair_with\<close>, which joins the requester whatever the room holds: with two
  connections registered as XR-1234 and one as XR-1238, the room of the pair ends with
  three members; and asking again for a pair that is already formed emits
  \<open>room_joined\<close> and \<open>room_update\<close> once more.
\<close>

theorem pair_room_exceeds_two:
  "members (run init_server three_in_room) ''pair:XR-1234:XR-1238'' = [''s1'', ''s2'', ''s3'']
   \<and> out (step (run init_server three_in_room) (PairWith ''s1'' (Some ''XR-1238'')))
       = out (run init_server three_in_room)
         @ [Emit (ToRoom ''pair:XR-1234:XR-1238'')
              (RoomJoined ''pair:XR-1234:XR-1238'' [''XR-1234'', ''XR-1238'', ''XR-1234'']),
            Emit ToAll (RoomUpdate [(Some ''XR-1234'', Some ''XR-1238'')])]"
  by (simp add: eval_defs net0_def three_in_room_def)

text \<open>Removing an identity from the registries twice is the same as removing it once.\<close>

lemma unregister_idempotent: "unregister x i (unregister x i st) = unregister x i st"
  by (simp add: unregister_def)

text \<open>
  C9 fails on \<open>join\<close>: a second connection that joins under an identity already
  registered in this process takes over the registry entry, with no error and no
  disconnect.  When the same connection then identifies, as the client does, it is
  rejected and closed, and its cleanup removes the entry: the first holder is still
  connected but no longer registered.
\<close>

theorem join_replaces_registration:
  "clients (run init_server holder_announced) ''XR-1234'' = Some ''h''
   \<and> clients (run init_server
        (holder_announced @ [Connection ''c'' net0, Join ''c'' ''XR-1234'' net0 net0]))
        ''XR-1234'' = Some ''c''
   \<and> filter is_rejection (out (run init_server
        (holder_announced @ [Connection ''c'' net0, Join ''c'' ''XR-1234'' net0 net0]))) = []
   \<and> connected (run init_server (holder_announced @ duplicate_announced)) ''h''
   \<and> \<not> connected (run init_server (holder_announced @ duplicate_announced)) ''c''
   \<and> clients (run init_server (holder_announced @ duplicate_announced)) ''XR-1234'' = None"
  by (simp add: eval_defs net0_def holder_announced_def duplicate_announced_def)

end
